theory Spec2Isabelle
  imports Main "HOL-Library.Sublist"
begin

section \<open>JavaScript strings\<close>

text \<open>
  A JavaScript string is a sequence of UTF-16 code units; \<open>length\<close>, \<open>slice\<close> and
  \<open>split\<close> count code units.  A code unit is a natural number, so that the non-ASCII
  characters of the prompt templates and the \<open>\uXXXX\<close> escapes of JSON are single
  elements.  \<open>js\<close> turns an ASCII literal into such a string.
\<close>

type_synonym jsstring = "nat list"

definition js :: "string \<Rightarrow> jsstring" where
  "js s = map of_char s"

text \<open>White space of \<open>String.prototype.trim\<close> and of the regular expression class
  \<open>\s\<close> (WhiteSpace and LineTerminator of ECMAScript).\<close>

definition is_space :: "nat \<Rightarrow> bool" where
  "is_space c \<longleftrightarrow>
     (9 \<le> c \<and> c \<le> 13) \<or> c = 32 \<or> c = 160 \<or> c = 5760 \<or> (8192 \<le> c \<and> c \<le> 8202)
     \<or> c = 8232 \<or> c = 8233 \<or> c = 8239 \<or> c = 8287 \<or> c = 12288 \<or> c = 65279"

definition trim :: "jsstring \<Rightarrow> jsstring" where
  "trim s = rev (dropWhile is_space (rev (dropWhile is_space s)))"

text \<open>\<open>s.includes(t)\<close> of JavaScript.\<close>

fun str_includes :: "jsstring \<Rightarrow> jsstring \<Rightarrow> bool" where
  "str_includes [] t = (t = [])"
| "str_includes (c # s) t = (prefix t (c # s) \<or> str_includes s t)"

text \<open>ASCII case folding, as the \<open>i\<close> flag of a regular expression without the \<open>u\<close> flag
  applies it to the letters of an ASCII pattern.\<close>

definition lower :: "nat \<Rightarrow> nat" where
  "lower c = (if 65 \<le> c \<and> c \<le> 90 then c + 32 else c)"

definition prefix_ci :: "jsstring \<Rightarrow> jsstring \<Rightarrow> bool" where
  "prefix_ci p s = prefix (map lower p) (map lower s)"

text \<open>The decimal numeral a template literal prints for a non-negative integer.\<close>

function decimal :: "nat \<Rightarrow> jsstring" where
  "decimal n = (if n < 10 then [48 + n] else decimal (n div 10) @ [48 + n mod 10])"
  by pat_completeness auto
termination
  by (relation "measure id") auto

definition bool_text :: "bool \<Rightarrow> jsstring" where
  "bool_text b = (if b then js ''true'' else js ''false'')"

text \<open>The pieces of a string between the code units that satisfy \<open>sep\<close>; never the
  empty list.  \<open>s.split("\n")\<close> is the instance for the line feed.\<close>

fun split_on :: "(nat \<Rightarrow> bool) \<Rightarrow> jsstring \<Rightarrow> jsstring list" where
  "split_on sep [] = [[]]"
| "split_on sep (c # s) =
     (if sep c then [] # split_on sep s
      else (case split_on sep s of [] \<Rightarrow> [[c]] | p # ps \<Rightarrow> (c # p) # ps))"

definition split_nl :: "jsstring \<Rightarrow> jsstring list" where
  "split_nl s = split_on (\<lambda>c. c = 10) s"

text \<open>\<open>s.split("\n\n")\<close>: the separator is searched from the left, without overlap.\<close>

fun split_nlnl :: "jsstring \<Rightarrow> jsstring list" where
  "split_nlnl [] = [[]]"
| "split_nlnl [c] = [[c]]"
| "split_nlnl (c # d # s) =
     (if c = 10 \<and> d = 10 then [] # split_nlnl s
      else (case split_nlnl (d # s) of [] \<Rightarrow> [[c]] | p # ps \<Rightarrow> (c # p) # ps))"

section \<open>JSON values, \<open>JSON.parse\<close> and \<open>JSON.stringify\<close>\<close>

text \<open>
  A number is carried as its lexeme: the value of a double and its shortest printed form
  are floating point and are not modelled, so a number is printed back as it was
  written (\<open>1.0\<close> stays \<open>1.0\<close>, where the code prints \<open>1\<close>).  Every other value is exact.
\<close>

datatype json =
    JNull
  | JBool bool
  | JNumber jsstring
  | JString jsstring
  | JArray "json list"
  | JObject "(jsstring \<times> json) list"

subsection \<open>The parser, a pushdown machine over the code units\<close>

datatype numstate = NMinus | NZero | NInt | NDot | NFrac | NE | NESign | NExp

datatype frame =
    FArr "json list"
  | FObj "(jsstring \<times> json) list"
  | FKey jsstring

datatype pstate =
    PValue
  | PArrStart
  | PObjStart
  | PKey
  | PColon
  | PAfter
  | PDone json
  | PStr bool jsstring
  | PEsc bool jsstring
  | PUni bool jsstring "nat list"
  | PNum numstate jsstring
  | PLit jsstring json

definition is_ws :: "nat \<Rightarrow> bool" where
  "is_ws c \<longleftrightarrow> c = 32 \<or> c = 9 \<or> c = 10 \<or> c = 13"

definition is_digit :: "nat \<Rightarrow> bool" where
  "is_digit c \<longleftrightarrow> 48 \<le> c \<and> c \<le> 57"

definition hex_value :: "nat \<Rightarrow> nat option" where
  "hex_value c =
     (if 48 \<le> c \<and> c \<le> 57 then Some (c - 48)
      else if 65 \<le> c \<and> c \<le> 70 then Some (c - 55)
      else if 97 \<le> c \<and> c \<le> 102 then Some (c - 87)
      else None)"

text \<open>
  The own properties of the object that \<open>JSON.parse\<close> builds from the members in source
  order: a repeated key keeps its first position and takes the last value; array-index
  keys are enumerated first, ascending, then the other keys in order of creation.
\<close>

definition index_value :: "jsstring \<Rightarrow> nat" where
  "index_value k = foldl (\<lambda>a d. 10 * a + (d - 48)) 0 k"

definition is_index :: "jsstring \<Rightarrow> bool" where
  "is_index k \<longleftrightarrow>
     k \<noteq> [] \<and> list_all is_digit k \<and> (hd k \<noteq> 48 \<or> length k = 1)
     \<and> index_value k \<le> 4294967294"

fun put :: "(jsstring \<times> json) list \<Rightarrow> jsstring \<Rightarrow> json \<Rightarrow> (jsstring \<times> json) list" where
  "put [] k v = [(k, v)]"
| "put ((k', v') # ps) k v = (if k' = k then (k, v) # ps else (k', v') # put ps k v)"

definition props :: "(jsstring \<times> json) list \<Rightarrow> (jsstring \<times> json) list" where
  "props ms =
     (let ps = foldl (\<lambda>ps m. put ps (fst m) (snd m)) [] ms
      in sort_key (\<lambda>p. index_value (fst p)) (filter (\<lambda>p. is_index (fst p)) ps)
         @ filter (\<lambda>p. \<not> is_index (fst p)) ps)"

text \<open>A finished value goes to the container on top of the stack, or is the result.
  Members and elements are kept in reverse while their container is open.\<close>

fun complete :: "json \<Rightarrow> frame list \<Rightarrow> (pstate \<times> frame list) option" where
  "complete v [] = Some (PDone v, [])"
| "complete v (FArr es # st) = Some (PAfter, FArr (v # es) # st)"
| "complete v (FKey k # FObj ms # st) = Some (PAfter, FObj ((k, v) # ms) # st)"
| "complete v _ = None"

text \<open>After a value: a separator, the end of the container, or white space.\<close>

fun step_after :: "pstate \<times> frame list \<Rightarrow> nat \<Rightarrow> (pstate \<times> frame list) option" where
  "step_after (PDone v, st) c = (if is_ws c then Some (PDone v, st) else None)"
| "step_after (PAfter, FArr es # st) c =
     (if is_ws c then Some (PAfter, FArr es # st)
      else if c = 44 then Some (PValue, FArr es # st)
      else if c = 93 then complete (JArray (rev es)) st
      else None)"
| "step_after (PAfter, FObj ms # st) c =
     (if is_ws c then Some (PAfter, FObj ms # st)
      else if c = 44 then Some (PKey, FObj ms # st)
      else if c = 125 then complete (JObject (props (rev ms))) st
      else None)"
| "step_after _ c = None"

fun step_value :: "frame list \<Rightarrow> nat \<Rightarrow> (pstate \<times> frame list) option" where
  "step_value st c =
     (if is_ws c then Some (PValue, st)
      else if c = 34 then Some (PStr False [], st)
      else if c = 91 then Some (PArrStart, FArr [] # st)
      else if c = 123 then Some (PObjStart, FObj [] # st)
      else if c = 45 then Some (PNum NMinus [c], st)
      else if c = 48 then Some (PNum NZero [c], st)
      else if is_digit c then Some (PNum NInt [c], st)
      else if c = 116 then Some (PLit (js ''rue'') (JBool True), st)
      else if c = 102 then Some (PLit (js ''alse'') (JBool False), st)
      else if c = 110 then Some (PLit (js ''ull'') JNull, st)
      else None)"

text \<open>The number grammar: \<open>Some None\<close> is the end of the lexeme, \<open>None\<close> an error.\<close>

fun step_num :: "numstate \<Rightarrow> nat \<Rightarrow> numstate option option" where
  "step_num NMinus c =
     (if c = 48 then Some (Some NZero) else if is_digit c then Some (Some NInt) else None)"
| "step_num NZero c =
     (if c = 46 then Some (Some NDot) else if c = 101 \<or> c = 69 then Some (Some NE)
      else Some None)"
| "step_num NInt c =
     (if is_digit c then Some (Some NInt) else if c = 46 then Some (Some NDot)
      else if c = 101 \<or> c = 69 then Some (Some NE) else Some None)"
| "step_num NDot c = (if is_digit c then Some (Some NFrac) else None)"
| "step_num NFrac c =
     (if is_digit c then Some (Some NFrac) else if c = 101 \<or> c = 69 then Some (Some NE)
      else Some None)"
| "step_num NE c =
     (if c = 43 \<or> c = 45 then Some (Some NESign) else if is_digit c then Some (Some NExp)
      else None)"
| "step_num NESign c = (if is_digit c then Some (Some NExp) else None)"
| "step_num NExp c = (if is_digit c then Some (Some NExp) else Some None)"

fun num_final :: "numstate \<Rightarrow> bool" where
  "num_final NZero = True"
| "num_final NInt = True"
| "num_final NFrac = True"
| "num_final NExp = True"
| "num_final _ = False"

fun step :: "pstate \<times> frame list \<Rightarrow> nat \<Rightarrow> (pstate \<times> frame list) option" where
  "step (PValue, st) c = step_value st c"
| "step (PArrStart, st) c =
     (if is_ws c then Some (PArrStart, st)
      else if c = 93 then (case st of FArr es # st' \<Rightarrow> complete (JArray []) st' | _ \<Rightarrow> None)
      else step_value st c)"
| "step (PObjStart, st) c =
     (if is_ws c then Some (PObjStart, st)
      else if c = 125 then (case st of FObj ms # st' \<Rightarrow> complete (JObject []) st' | _ \<Rightarrow> None)
      else if c = 34 then Some (PStr True [], st)
      else None)"
| "step (PKey, st) c =
     (if is_ws c then Some (PKey, st)
      else if c = 34 then Some (PStr True [], st)
      else None)"
| "step (PColon, st) c =
     (if is_ws c then Some (PColon, st)
      else if c = 58 then Some (PValue, st)
      else None)"
| "step (PAfter, st) c = step_after (PAfter, st) c"
| "step (PDone v, st) c = step_after (PDone v, st) c"
| "step (PStr k acc, st) c =
     (if c = 34 then
        (if k then Some (PColon, FKey (rev acc) # st) else complete (JString (rev acc)) st)
      else if c = 92 then Some (PEsc k acc, st)
      else if c < 32 then None
      else Some (PStr k (c # acc), st))"
| "step (PEsc k acc, st) c =
     (if c = 34 \<or> c = 92 \<or> c = 47 then Some (PStr k (c # acc), st)
      else if c = 98 then Some (PStr k (8 # acc), st)
      else if c = 102 then Some (PStr k (12 # acc), st)
      else if c = 110 then Some (PStr k (10 # acc), st)
      else if c = 114 then Some (PStr k (13 # acc), st)
      else if c = 116 then Some (PStr k (9 # acc), st)
      else if c = 117 then Some (PUni k acc [], st)
      else None)"
| "step (PUni k acc hs, st) c =
     (case hex_value c of
        None \<Rightarrow> None
      | Some h \<Rightarrow>
          (if length hs = 3
           then Some (PStr k (foldl (\<lambda>a d. 16 * a + d) 0 (hs @ [h]) # acc), st)
           else Some (PUni k acc (hs @ [h]), st)))"
| "step (PNum ns lx, st) c =
     (case step_num ns c of
        None \<Rightarrow> None
      | Some (Some ns') \<Rightarrow> Some (PNum ns' (c # lx), st)
      | Some None \<Rightarrow>
          (case complete (JNumber (rev lx)) st of
             None \<Rightarrow> None
           | Some cfg \<Rightarrow> step_after cfg c))"
| "step (PLit [] v, st) c = None"
| "step (PLit (x # xs) v, st) c =
     (if c \<noteq> x then None
      else if xs = [] then complete v st
      else Some (PLit xs v, st))"

fun run :: "pstate \<times> frame list \<Rightarrow> jsstring \<Rightarrow> (pstate \<times> frame list) option" where
  "run cfg [] = Some cfg"
| "run cfg (c # s) = (case step cfg c of None \<Rightarrow> None | Some cfg' \<Rightarrow> run cfg' s)"

fun finish :: "pstate \<times> frame list \<Rightarrow> json option" where
  "finish (PDone v, []) = Some v"
| "finish (PNum ns lx, []) = (if num_final ns then Some (JNumber (rev lx)) else None)"
| "finish _ = None"

text \<open>\<open>JSON.parse(s)\<close>; \<open>None\<close> is the SyntaxError it throws.\<close>

definition JSON_parse :: "jsstring \<Rightarrow> json option" where
  "JSON_parse s = (case run (PValue, []) s of None \<Rightarrow> None | Some cfg \<Rightarrow> finish cfg)"

subsection \<open>\<open>JSON.stringify\<close>\<close>

definition hex_digit :: "nat \<Rightarrow> nat" where
  "hex_digit d = (if d < 10 then 48 + d else 87 + d)"

definition is_high :: "nat \<Rightarrow> bool" where
  "is_high c \<longleftrightarrow> 55296 \<le> c \<and> c \<le> 56319"

definition is_low :: "nat \<Rightarrow> bool" where
  "is_low c \<longleftrightarrow> 56320 \<le> c \<and> c \<le> 57343"

text \<open>One code unit inside a quoted string; a surrogate that reaches this function is
  unpaired and is escaped.\<close>

definition escape :: "nat \<Rightarrow> jsstring" where
  "escape c =
     (if c = 34 then [92, 34]
      else if c = 92 then [92, 92]
      else if c = 8 then [92, 98]
      else if c = 9 then [92, 116]
      else if c = 10 then [92, 110]
      else if c = 12 then [92, 102]
      else if c = 13 then [92, 114]
      else if c < 32 \<or> is_high c \<or> is_low c then
        [92, 117, hex_digit (c div 4096), hex_digit (c div 256 mod 16),
         hex_digit (c div 16 mod 16), hex_digit (c mod 16)]
      else [c])"

fun quote_body :: "jsstring \<Rightarrow> jsstring" where
  "quote_body [] = []"
| "quote_body [c] = escape c"
| "quote_body (c # d # s) =
     (if is_high c \<and> is_low d then c # d # quote_body s
      else escape c @ quote_body (d # s))"

definition quote :: "jsstring \<Rightarrow> jsstring" where
  "quote s = [34] @ quote_body s @ [34]"

fun join :: "jsstring \<Rightarrow> jsstring list \<Rightarrow> jsstring" where
  "join sep [] = []"
| "join sep [x] = x"
| "join sep (x # y # xs) = x @ sep @ join sep (y # xs)"

fun stringify :: "json \<Rightarrow> jsstring" where
  "stringify JNull = js ''null''"
| "stringify (JBool b) = bool_text b"
| "stringify (JNumber lx) = lx"
| "stringify (JString s) = quote s"
| "stringify (JArray vs) = [91] @ join [44] (map stringify vs) @ [93]"
| "stringify (JObject ms) =
     [123] @ join [44] (map (\<lambda>m. quote (fst m) @ [58] @ stringify (snd m)) ms) @ [125]"

section \<open>Reading a parsed value\<close>

text \<open>
  A JavaScript value here is a JSON value or \<open>undefined\<close> (\<open>None\<close>).  The property names
  the handlers read (\<open>response\<close>, \<open>choices\<close>, \<open>delta\<close>, \<open>content\<close>, \<open>candidates\<close>,
  \<open>parts\<close>, \<open>text\<close>) are not properties of the String, Array, Number or Boolean
  prototypes, so reading them from such a value gives \<open>undefined\<close>.
\<close>

type_synonym jsvalue = "json option"

text \<open>\<open>v.k\<close>: the outer \<open>None\<close> is the TypeError of reading a property of \<open>null\<close> or
  \<open>undefined\<close>.\<close>

fun get_prop :: "jsvalue \<Rightarrow> jsstring \<Rightarrow> jsvalue option" where
  "get_prop None k = None"
| "get_prop (Some JNull) k = None"
| "get_prop (Some (JObject ms)) k = Some (map_of ms k)"
| "get_prop (Some v) k = Some None"

text \<open>\<open>v?.k\<close>.\<close>

fun opt_prop :: "jsvalue \<Rightarrow> jsstring \<Rightarrow> jsvalue" where
  "opt_prop (Some (JObject ms)) k = map_of ms k"
| "opt_prop v k = None"

text \<open>\<open>v?.[0]\<close>: the first element of an array, the property \<open>"0"\<close> of an object, the first
  code unit of a string.\<close>

fun opt_first :: "jsvalue \<Rightarrow> jsvalue" where
  "opt_first (Some (JArray (x # xs))) = Some x"
| "opt_first (Some (JObject ms)) = map_of ms (js ''0'')"
| "opt_first (Some (JString (c # s))) = Some (JString [c])"
| "opt_first v = None"

text \<open>ToBoolean.  A number is zero when its mantissa has no non-zero digit (a lexeme
  that only rounds to zero is taken as non-zero).\<close>

definition number_nonzero :: "jsstring \<Rightarrow> bool" where
  "number_nonzero lx \<longleftrightarrow>
     list_ex (\<lambda>c. 49 \<le> c \<and> c \<le> 57) (takeWhile (\<lambda>c. c \<noteq> 101 \<and> c \<noteq> 69) lx)"

fun truthy :: "jsvalue \<Rightarrow> bool" where
  "truthy None = False"
| "truthy (Some JNull) = False"
| "truthy (Some (JBool b)) = b"
| "truthy (Some (JNumber lx)) = number_nonzero lx"
| "truthy (Some (JString s)) = (s \<noteq> [])"
| "truthy (Some (JArray vs)) = True"
| "truthy (Some (JObject ms)) = True"

section \<open>The document and the selector engine\<close>

text \<open>
  \<open>runRules\<close> receives the document that the HTML parser of the cheerio library has
  built.  A document is the list of the nodes under its root.  A selector of the source
  is a comma-separated list of compound selectors without combinators, so an element
  matches or not by its own tag name, attributes and text.
\<close>

datatype node =
    Element jsstring "(jsstring \<times> jsstring) list" "node list"
  | Text jsstring
  | Comment jsstring

type_synonym document = "node list"

fun text_content :: "node \<Rightarrow> jsstring" where
  "text_content (Element t as cs) = concat (map text_content cs)"
| "text_content (Text s) = s"
| "text_content (Comment s) = []"

text \<open>An element followed by its descendant elements, in document order.\<close>

fun elements :: "node \<Rightarrow> node list" where
  "elements (Element t as cs) = Element t as cs # concat (map elements cs)"
| "elements (Text s) = []"
| "elements (Comment s) = []"

definition all_elements :: "document \<Rightarrow> node list" where
  "all_elements d = concat (map elements d)"

fun tag_name :: "node \<Rightarrow> jsstring" where
  "tag_name (Element t as cs) = t"
| "tag_name n = []"

fun attr :: "node \<Rightarrow> jsstring \<Rightarrow> jsstring option" where
  "attr (Element t as cs) name = map_of as name"
| "attr n name = None"

datatype simple =
    Tag jsstring
  | Universal
  | HasAttr jsstring
  | AttrEquals jsstring jsstring
  | AttrContains jsstring jsstring
  | Class jsstring
  | Contains jsstring

type_synonym selector = "simple list list"

text \<open>The value of the attribute \<open>type\<close> is compared without regard to ASCII case, as
  selectors do on HTML documents; the other attributes of the source's selectors
  (\<open>name\<close>, \<open>role\<close>, \<open>aria-current\<close>, \<open>data-testid\<close>, \<open>class\<close>) are compared exactly.\<close>

definition attr_equals :: "jsstring \<Rightarrow> jsstring \<Rightarrow> jsstring \<Rightarrow> bool" where
  "attr_equals name v a =
     (if name = js ''type'' then map lower a = map lower v else a = v)"

definition class_names :: "jsstring \<Rightarrow> jsstring list" where
  "class_names a = filter (\<lambda>w. w \<noteq> []) (split_on is_space a)"

fun matches_simple :: "node \<Rightarrow> simple \<Rightarrow> bool" where
  "matches_simple n (Tag t) = (tag_name n = t)"
| "matches_simple n Universal = True"
| "matches_simple n (HasAttr name) = (attr n name \<noteq> None)"
| "matches_simple n (AttrEquals name v) =
     (case attr n name of None \<Rightarrow> False | Some a \<Rightarrow> attr_equals name v a)"
| "matches_simple n (AttrContains name v) =
     (case attr n name of None \<Rightarrow> False | Some a \<Rightarrow> v \<noteq> [] \<and> str_includes a v)"
| "matches_simple n (Class c) =
     (case attr n (js ''class'') of None \<Rightarrow> False | Some a \<Rightarrow> c \<in> set (class_names a))"
| "matches_simple n (Contains t) = str_includes (text_content n) t"

definition matches :: "selector \<Rightarrow> node \<Rightarrow> bool" where
  "matches sel n = list_ex (\<lambda>compound. list_all (matches_simple n) compound) sel"

text \<open>\<open>$(sel)\<close>: the elements of the document that match, each once, in document order.\<close>

definition select :: "document \<Rightarrow> selector \<Rightarrow> node list" where
  "select d sel = filter (matches sel) (all_elements d)"

text \<open>\<open>.first()\<close> and \<open>.text()\<close> of a selection.\<close>

definition first :: "node list \<Rightarrow> node list" where
  "first ns = take 1 ns"

definition text_of :: "node list \<Rightarrow> jsstring" where
  "text_of ns = concat (map text_content ns)"

section \<open>Signal extraction: \<open>runRules\<close>\<close>

record signals =
  title :: jsstring
  hasViewport :: bool
  forms :: nat
  inputs :: nat
  labels :: nat
  buttons :: nat
  primaryCtaGuess :: jsstring
  hasInlineValidationHint :: bool
  hasProgress :: bool

text \<open>The selectors of the source, in its order.\<close>

definition sel_title :: selector where
  "sel_title = [[Tag (js ''title'')]]"

definition sel_viewport :: selector where
  "sel_viewport = [[Tag (js ''meta''), AttrEquals (js ''name'') (js ''viewport'')]]"

definition sel_forms :: selector where
  "sel_forms = [[Tag (js ''form'')]]"

definition sel_inputs :: selector where
  "sel_inputs = [[Tag (js ''input'')], [Tag (js ''select'')], [Tag (js ''textarea'')]]"

definition sel_labels :: selector where
  "sel_labels = [[Tag (js ''label'')]]"

text \<open>\<open>button, a[role=button], .btn, [data-testid*=button]\<close>\<close>

definition sel_buttons :: selector where
  "sel_buttons =
     [[Tag (js ''button'')],
      [Tag (js ''a''), AttrEquals (js ''role'') (js ''button'')],
      [Class (js ''btn'')],
      [AttrContains (js ''data-testid'') (js ''button'')]]"

text \<open>\<open>button, a[role=button]\<close>, the selector of \<open>src/app/api/analyze/route.ts\<close>\<close>

definition sel_buttons_route :: selector where
  "sel_buttons_route =
     [[Tag (js ''button'')],
      [Tag (js ''a''), AttrEquals (js ''role'') (js ''button'')]]"

text \<open>\<open>button[type="submit"], button:contains("Sign in"), button:contains("Buy"), a.button\<close>\<close>

definition sel_cta :: selector where
  "sel_cta =
     [[Tag (js ''button''), AttrEquals (js ''type'') (js ''submit'')],
      [Tag (js ''button''), Contains (js ''Sign in'')],
      [Tag (js ''button''), Contains (js ''Buy'')],
      [Tag (js ''a''), Class (js ''button'')]]"

text \<open>\<open>*[aria-invalid], .error, .error-message\<close>\<close>

definition sel_validation :: selector where
  "sel_validation =
     [[Universal, HasAttr (js ''aria-invalid'')],
      [Class (js ''error'')],
      [Class (js ''error-message'')]]"

text \<open>\<open>progress, .step, [aria-current=step]\<close>\<close>

definition sel_progress :: selector where
  "sel_progress =
     [[Tag (js ''progress'')],
      [Class (js ''step'')],
      [AttrEquals (js ''aria-current'') (js ''step'')]]"

text \<open>\<open>runRules\<close> of the handler with the providers ollama and gemini
  (\<open>src/unnamed/part_000\<close>).\<close>

definition runRules :: "document \<Rightarrow> signals" where
  "runRules d =
     \<lparr> title = trim (text_of (first (select d sel_title))),
       hasViewport = (length (select d sel_viewport) > 0),
       forms = length (select d sel_forms),
       inputs = length (select d sel_inputs),
       labels = length (select d sel_labels),
       buttons = length (select d sel_buttons),
       primaryCtaGuess = trim (text_of (first (select d sel_cta))),
       hasInlineValidationHint = (length (select d sel_validation) > 0),
       hasProgress = (length (select d sel_progress) > 0) \<rparr>"

text \<open>\<open>runRules\<close> of \<open>src/app/api/analyze/route.ts\<close>: the same but for the selector of
  \<open>buttons\<close>.\<close>

definition runRules_route :: "document \<Rightarrow> signals" where
  "runRules_route d =
     \<lparr> title = trim (text_of (first (select d sel_title))),
       hasViewport = (length (select d sel_viewport) > 0),
       forms = length (select d sel_forms),
       inputs = length (select d sel_inputs),
       labels = length (select d sel_labels),
       buttons = length (select d sel_buttons_route),
       primaryCtaGuess = trim (text_of (first (select d sel_cta))),
       hasInlineValidationHint = (length (select d sel_validation) > 0),
       hasProgress = (length (select d sel_progress) > 0) \<rparr>"

section \<open>Prompt construction: \<open>buildPrompt\<close>\<close>

definition nl :: jsstring where
  "nl = [10]"

text \<open>\<open>x || "(none)"\<close> on a string.\<close>

definition or_none :: "jsstring \<Rightarrow> jsstring" where
  "or_none s = (if s = [] then js ''(none)'' else s)"

text \<open>The lines of the template that print the signals; both handlers have them.\<close>

definition signal_lines :: "signals \<Rightarrow> jsstring" where
  "signal_lines sg =
     js ''### Extracted signals'' @ nl
     @ js ''- title: '' @ or_none (title sg) @ nl
     @ js ''- hasViewport: '' @ bool_text (hasViewport sg) @ nl
     @ js ''- forms: '' @ decimal (forms sg) @ js '', inputs: '' @ decimal (inputs sg)
       @ js '', labels: '' @ decimal (labels sg) @ nl
     @ js ''- buttons: '' @ decimal (buttons sg) @ js '', primaryCtaGuess: '' @ [34]
       @ or_none (primaryCtaGuess sg) @ [34] @ nl
     @ js ''- hasInlineValidationHint: '' @ bool_text (hasInlineValidationHint sg) @ nl
     @ js ''- hasProgress: '' @ bool_text (hasProgress sg) @ nl"

text \<open>\<open>buildPrompt\<close> of \<open>src/unnamed/part_000\<close>.  The source file has the three
  characters U+00E2, U+20AC, U+201C between \<open>5\<close> and \<open>10\<close>.\<close>

definition buildPrompt :: "jsstring \<Rightarrow> signals \<Rightarrow> jsstring" where
  "buildPrompt html sg =
     js ''You are a UX auditor.'' @ nl
     @ js ''Analyse the provided page using the extracted signals and the raw HTML.'' @ nl
     @ js ''Return 5'' @ [226, 8364, 8220]
       @ js ''10 actionable usability improvements in Markdown, grouped by High, Medium, and Low priority.''
       @ nl
     @ js ''For each item include: Issue, Impact, Recommendation. Use concise British English.''
       @ nl
     @ js ''Do not wrap the whole response in code fences.'' @ nl
     @ nl
     @ signal_lines sg
     @ nl
     @ js ''### Raw HTML (may be truncated)'' @ nl
     @ take 4000 html @ nl"

text \<open>\<open>buildPrompt\<close> of \<open>src/app/api/analyze/route.ts\<close>, with an en dash (U+2013).\<close>

definition buildPrompt_route :: "jsstring \<Rightarrow> signals \<Rightarrow> jsstring" where
  "buildPrompt_route html sg =
     js ''You are a UX auditor.'' @ nl
     @ nl
     @ js ''Analyse the provided page using the extracted signals and the raw HTML.'' @ nl
     @ js ''Return 5'' @ [8211]
       @ js ''10 actionable usability improvements in **Markdown**, grouped by **High**, **Medium**, **Low** priority.''
       @ nl
     @ js ''For each item include: **Issue**, **Impact**, **Recommendation**. Use British English. Be concise.''
       @ nl
     @ nl
     @ signal_lines sg
     @ nl
     @ js ''Do not wrap the whole response in code fences.'' @ nl
     @ nl
     @ js ''### Raw HTML (truncated if too long)'' @ nl
     @ take 4000 html @ nl"

section \<open>Stream normalisation\<close>

text \<open>\<open>JSON.stringify({ delta: v }) + "\n"\<close>, one record of the outbound stream.\<close>

definition delta_line :: "json \<Rightarrow> jsstring" where
  "delta_line v = stringify (JObject [(js ''delta'', v)]) @ nl"

text \<open>\<open>if (v) await writer.write(...)\<close>: the records written for an extracted value.\<close>

definition emit :: "jsvalue \<Rightarrow> jsstring list" where
  "emit v = (case v of None \<Rightarrow> [] | Some x \<Rightarrow> if truthy (Some x) then [delta_line x] else [])"

text \<open>The body of \<open>for (const line of lines)\<close> in the ollama branch of both handlers.
  An exception of \<open>JSON.parse\<close> or of reading \<open>obj.response\<close> is caught and the line
  writes nothing.\<close>

definition ollama_line :: "jsstring \<Rightarrow> jsstring list" where
  "ollama_line line =
     (case JSON_parse line of
        None \<Rightarrow> []
      | Some obj \<Rightarrow>
          (case get_prop (Some obj) (js ''response'') of
             None \<Rightarrow> []
           | Some v \<Rightarrow> emit v))"

text \<open>The same in the gemini branch of \<open>route.ts\<close>:
  \<open>obj.candidates?.[0]?.content?.parts?.[0]?.text\<close>.\<close>

definition gemini_line :: "jsstring \<Rightarrow> jsstring list" where
  "gemini_line line =
     (case JSON_parse line of
        None \<Rightarrow> []
      | Some obj \<Rightarrow>
          (case get_prop (Some obj) (js ''candidates'') of
             None \<Rightarrow> []
           | Some c \<Rightarrow>
               emit (opt_prop (opt_first (opt_prop (opt_prop (opt_first c) (js ''content''))
                                  (js ''parts''))) (js ''text''))))"

text \<open>
  The read loop without a buffer: every chunk that the reader delivers is decoded, split
  at line feeds, and each non-empty piece is handled on its own.  The argument is the
  list of the decoded chunks until the reader reports \<open>done\<close>; the result is the list of
  the records written, in order.
\<close>

fun line_loop :: "(jsstring \<Rightarrow> jsstring list) \<Rightarrow> jsstring list \<Rightarrow> jsstring list" where
  "line_loop handle [] = []"
| "line_loop handle (chunk # rest) =
     concat (map handle (filter (\<lambda>line. line \<noteq> []) (split_nl chunk)))
     @ line_loop handle rest"

text \<open>The body of \<open>for (const evt of events)\<close> in the openai branch of \<open>route.ts\<close>.\<close>

definition openai_event :: "jsstring \<Rightarrow> jsstring list" where
  "openai_event evt =
     (if \<not> prefix (js ''data:'') evt then []
      else let json = trim (drop 5 evt) in
        if json = js ''[DONE]'' then []
        else (case JSON_parse json of
                None \<Rightarrow> []
              | Some obj \<Rightarrow>
                  (case get_prop (Some obj) (js ''choices'') of
                     None \<Rightarrow> []
                   | Some c \<Rightarrow>
                       emit (opt_prop (opt_prop (opt_first c) (js ''delta''))
                               (js ''content'')))))"

text \<open>The read loop of the openai branch, with its buffer: the last piece of the split
  stays in the buffer (\<open>events.pop() || ""\<close>), the others are handled.\<close>

fun openai_loop :: "jsstring \<Rightarrow> jsstring list \<Rightarrow> jsstring list" where
  "openai_loop buffer [] = []"
| "openai_loop buffer (chunk # rest) =
     (let events = split_nlnl (buffer @ chunk)
      in concat (map openai_event (butlast events)) @ openai_loop (last events) rest)"

section \<open>The content-generation answer (\<open>src/unnamed/part_000\<close>)\<close>

text \<open>
  \<open>data?.candidates?.[0]?.content?.parts ?? []\<close> followed by
  \<open>parts.map((p) => (typeof p.text === "string" ? p.text : "")).join("")\<close>.
  \<open>None\<close> is the TypeError thrown when \<open>parts\<close> is neither nullish nor an array, or
  when an element of it is \<open>null\<close>.
\<close>

fun part_text :: "json \<Rightarrow> jsstring option" where
  "part_text JNull = None"
| "part_text (JObject ms) =
     (case map_of ms (js ''text'') of Some (JString s) \<Rightarrow> Some s | _ \<Rightarrow> Some [])"
| "part_text p = Some []"

fun join_parts :: "json list \<Rightarrow> jsstring option" where
  "join_parts [] = Some []"
| "join_parts (p # ps) =
     (case part_text p of
        None \<Rightarrow> None
      | Some s \<Rightarrow> (case join_parts ps of None \<Rightarrow> None | Some r \<Rightarrow> Some (s @ r)))"

definition extract_text :: "json \<Rightarrow> jsstring option" where
  "extract_text data =
     (case opt_prop (opt_prop (opt_first (opt_prop (Some data) (js ''candidates'')))
                      (js ''content'')) (js ''parts'') of
        None \<Rightarrow> join_parts []
      | Some JNull \<Rightarrow> join_parts []
      | Some (JArray ps) \<Rightarrow> join_parts ps
      | Some other \<Rightarrow> None)"

text \<open>
  The value of the outer variable \<open>text\<close> after the \<open>try\<close> statement.  The \<open>try\<close> block
  declares its own \<open>const text\<close>, so the extracted string never reaches the outer
  variable, which keeps its initial value \<open>""\<close> unless the block throws.
\<close>

definition gemini_text :: "jsstring \<Rightarrow> jsstring" where
  "gemini_text textBody =
     (let text = [] in
      case JSON_parse textBody of
        None \<Rightarrow> textBody
      | Some data \<Rightarrow>
          (case extract_text data of
             None \<Rightarrow> textBody
           | Some inner_text \<Rightarrow> text))"

text \<open>The template literal \<open>`[gemini ok]\n${text || "[empty text]"}`\<close>.\<close>

definition gemini_delta :: "jsstring \<Rightarrow> jsstring" where
  "gemini_delta text =
     js ''[gemini ok]'' @ nl @ (if text = [] then js ''[empty text]'' else text)"

section \<open>The request handlers\<close>

record request =
  url :: "jsstring option"
  html :: "jsstring option"
  provider :: jsstring
  key :: "jsstring option"
  model :: "jsstring option"

record response =
  status :: nat
  headers :: "(jsstring \<times> jsstring) list"
  body :: jsstring

text \<open>What the model provider answers: the status and the decoded chunks of the body.\<close>

record upstream =
  up_status :: nat
  up_chunks :: "jsstring list"

definition ok :: "upstream \<Rightarrow> bool" where
  "ok r \<longleftrightarrow> 200 \<le> up_status r \<and> up_status r \<le> 299"

text \<open>
  The statuses whose response has no body: \<open>r.body\<close> is \<open>null\<close> for them, so
  \<open>r.body!.getReader()\<close> throws, and \<open>new Response(text, { status })\<close> throws for them
  and for a status outside 200 to 599.
\<close>

definition null_body_status :: "nat \<Rightarrow> bool" where
  "null_body_status s \<longleftrightarrow> s = 101 \<or> s = 103 \<or> s = 204 \<or> s = 205 \<or> s = 304"

definition no_body :: "upstream \<Rightarrow> bool" where
  "no_body r \<longleftrightarrow> null_body_status (up_status r)"

definition status_refused :: "nat \<Rightarrow> bool" where
  "status_refused s \<longleftrightarrow> s < 200 \<or> 599 < s \<or> null_body_status s"

text \<open>An outbound call: the fetch of the page to audit (a GET with the fixed
  \<open>User-Agent\<close> header), or a POST to a model provider with its address, headers and
  body.\<close>

datatype call =
    PageFetch jsstring
  | ModelCall jsstring "(jsstring \<times> jsstring) list" jsstring

fun is_model_call :: "call \<Rightarrow> bool" where
  "is_model_call (ModelCall target hs b) = True"
| "is_model_call (PageFetch u) = False"

text \<open>
  What the handler does not compute itself: the HTML parser, the network and the process
  configuration.  \<open>page_text u\<close> is \<open>None\<close> when \<open>fetch\<close> or \<open>r.text()\<close> throws;
  \<open>model_fetch\<close> is \<open>None\<close> when the call to the provider throws.
\<close>

record env =
  cheerio_load :: "jsstring \<Rightarrow> document"
  page_text :: "jsstring \<Rightarrow> jsstring option"
  model_fetch :: "jsstring \<Rightarrow> (jsstring \<times> jsstring) list \<Rightarrow> jsstring \<Rightarrow> upstream option"
  GOOGLE_API_KEY :: "jsstring option"
  OPENAI_API_KEY :: "jsstring option"

text \<open>The handler answers, or its promise is rejected by an exception nobody catches:
  the call to the provider throws, the answer of a streaming provider has no body, or the
  response that forwards an error cannot be built with the provider's status.\<close>

datatype outcome = Rejected | Responded response

definition json_headers :: "(jsstring \<times> jsstring) list" where
  "json_headers = [(js ''Content-Type'', js ''application/json'')]"

definition text_headers :: "(jsstring \<times> jsstring) list" where
  "text_headers = [(js ''Content-Type'', js ''text/plain; charset=utf-8'')]"

definition stream_headers :: "(jsstring \<times> jsstring) list" where
  "stream_headers =
     [(js ''Content-Type'', js ''text/plain; charset=utf-8''),
      (js ''Transfer-Encoding'', js ''chunked'')]"

definition error_response :: "jsstring \<Rightarrow> response" where
  "error_response msg =
     \<lparr> status = 400, headers = json_headers,
       body = stringify (JObject [(js ''error'', JString msg)]) \<rparr>"

text \<open>The response whose body is the readable side of the transform stream: status 200
  by default, and the records written until the writer is closed.\<close>

definition stream_response :: "jsstring list \<Rightarrow> response" where
  "stream_response records =
     \<lparr> status = 200, headers = stream_headers, body = concat records \<rparr>"

text \<open>\<open>a || b\<close> on strings that may be \<open>undefined\<close>, and a string in a template literal.\<close>

fun or_else :: "jsstring option \<Rightarrow> jsstring option \<Rightarrow> jsstring option" where
  "or_else (Some (c # s)) b = Some (c # s)"
| "or_else a b = b"

fun template :: "jsstring option \<Rightarrow> jsstring" where
  "template None = js ''undefined''"
| "template (Some s) = s"

subsection \<open>\<open>POST\<close> of \<open>src/unnamed/part_000\<close>\<close>

text \<open>\<open>/^https?:\/\//i.test(url)\<close>\<close>

definition is_http_url :: "jsstring \<Rightarrow> bool" where
  "is_http_url u \<longleftrightarrow> prefix_ci (js ''http://'') u \<or> prefix_ci (js ''https://'') u"

text \<open>The markup to audit and the calls made to get it.\<close>

definition resolve_input :: "env \<Rightarrow> request \<Rightarrow> jsstring \<times> call list" where
  "resolve_input e rq =
     (let rawHtml = template (or_else (html rq) (Some []))
      in case url rq of
           None \<Rightarrow> (rawHtml, [])
         | Some u \<Rightarrow>
             if rawHtml = [] \<and> u \<noteq> [] \<and> is_http_url u
             then (case page_text e u of
                     None \<Rightarrow> (rawHtml, [PageFetch u])
                   | Some t \<Rightarrow> (t, [PageFetch u]))
             else (rawHtml, []))"

definition default_ollama_model :: jsstring where
  "default_ollama_model = js ''deepseek-r1:14b''"

text \<open>\<open>model || "deepseek-r1:14b"\<close>, replaced by the default when it matches
  \<open>/^gpt-|^gemini/i\<close>.\<close>

definition ollama_model :: "jsstring option \<Rightarrow> jsstring" where
  "ollama_model m =
     (let modelName = template (or_else m (Some default_ollama_model))
      in if prefix_ci (js ''gpt-'') modelName \<or> prefix_ci (js ''gemini'') modelName
         then default_ollama_model else modelName)"

definition ollama_url :: jsstring where
  "ollama_url = js ''http://localhost:11434/api/generate''"

definition ollama_body :: "jsstring \<Rightarrow> jsstring \<Rightarrow> jsstring" where
  "ollama_body modelName prompt =
     stringify (JObject [(js ''model'', JString modelName), (js ''prompt'', JString prompt),
                         (js ''stream'', JBool True)])"

definition ollama_branch ::
  "env \<Rightarrow> jsstring \<Rightarrow> jsstring \<Rightarrow> call list \<Rightarrow> outcome \<times> call list" where
  "ollama_branch e modelName prompt calls =
     (let b = ollama_body modelName prompt;
          calls' = calls @ [ModelCall ollama_url json_headers b]
      in case model_fetch e ollama_url json_headers b of
           None \<Rightarrow> (Rejected, calls')
         | Some r \<Rightarrow>
             if no_body r then (Rejected, calls')
             else (Responded (stream_response (line_loop ollama_line (up_chunks r))), calls'))"

definition gemini_url :: "jsstring option \<Rightarrow> jsstring \<Rightarrow> jsstring" where
  "gemini_url m geminiKey =
     js ''https://generativelanguage.googleapis.com/v1beta/models/''
     @ template (or_else m (Some (js ''gemini-2.5-flash-lite'')))
     @ js '':generateContent?key='' @ geminiKey"

text \<open>\<open>JSON.stringify({ contents: [{ parts: [{ text: prompt }] }] })\<close>\<close>

definition gemini_body :: "jsstring \<Rightarrow> jsstring" where
  "gemini_body prompt =
     stringify (JObject [(js ''contents'',
       JArray [JObject [(js ''parts'', JArray [JObject [(js ''text'', JString prompt)]])]])])"

definition gemini_branch ::
  "env \<Rightarrow> request \<Rightarrow> jsstring \<Rightarrow> call list \<Rightarrow> outcome \<times> call list" where
  "gemini_branch e rq prompt calls =
     (case or_else (key rq) (GOOGLE_API_KEY e) of
        None \<Rightarrow> (Responded (error_response (js ''Missing Google API key.'')), calls)
      | Some geminiKey \<Rightarrow>
          if geminiKey = [] then
            (Responded (error_response (js ''Missing Google API key.'')), calls)
          else
            (let target = gemini_url (model rq) geminiKey;
                 b = gemini_body prompt;
                 calls' = calls @ [ModelCall target json_headers b]
             in case model_fetch e target json_headers b of
                  None \<Rightarrow> (Rejected, calls')
                | Some r \<Rightarrow>
                    (let textBody = concat (up_chunks r)
                     in if \<not> ok r then
                          (if status_refused (up_status r) then (Rejected, calls')
                           else (Responded \<lparr> status = up_status r, headers = text_headers,
                                              body = textBody \<rparr>, calls'))
                        else
                          (Responded \<lparr> status = 200, headers = text_headers,
                                       body = delta_line (JString (gemini_delta
                                                (gemini_text textBody))) \<rparr>, calls'))))"

definition POST :: "env \<Rightarrow> request \<Rightarrow> outcome \<times> call list" where
  "POST e rq =
     (let (rawHtml, calls) = resolve_input e rq
      in if rawHtml = [] then
           (Responded (error_response (js ''No URL/HTML provided.'')), calls)
         else
           (let signals = runRules (cheerio_load e rawHtml);
                prompt = buildPrompt rawHtml signals
            in if provider rq = js ''ollama'' then
                 ollama_branch e (ollama_model (model rq)) prompt calls
               else if provider rq = js ''gemini'' then
                 gemini_branch e rq prompt calls
               else (Responded (error_response (js ''Unknown provider'')), calls)))"

subsection \<open>\<open>POST\<close> of \<open>src/app/api/analyze/route.ts\<close>\<close>

text \<open>Here a URL that starts with \<open>http\<close> is fetched whatever the inline HTML is, and the
  text fetched replaces it.\<close>

definition resolve_input_route :: "env \<Rightarrow> request \<Rightarrow> jsstring \<times> call list" where
  "resolve_input_route e rq =
     (let rawHtml = template (or_else (html rq) (Some []))
      in case url rq of
           None \<Rightarrow> (rawHtml, [])
         | Some u \<Rightarrow>
             if u \<noteq> [] \<and> prefix (js ''http'') u
             then (case page_text e u of
                     None \<Rightarrow> (rawHtml, [PageFetch u])
                   | Some t \<Rightarrow> (t, [PageFetch u]))
             else (rawHtml, []))"

definition openai_url :: jsstring where
  "openai_url = js ''https://api.openai.com/v1/chat/completions''"

definition openai_headers :: "env \<Rightarrow> (jsstring \<times> jsstring) list" where
  "openai_headers e =
     [(js ''Content-Type'', js ''application/json''),
      (js ''Authorization'', js ''Bearer '' @ template (OPENAI_API_KEY e))]"

definition openai_body :: "jsstring \<Rightarrow> jsstring" where
  "openai_body prompt =
     stringify (JObject [(js ''model'', JString (js ''gpt-4o-mini'')),
       (js ''messages'', JArray [JObject [(js ''role'', JString (js ''user'')),
                                          (js ''content'', JString prompt)]]),
       (js ''stream'', JBool True)])"

definition openai_branch :: "env \<Rightarrow> jsstring \<Rightarrow> call list \<Rightarrow> outcome \<times> call list" where
  "openai_branch e prompt calls =
     (let b = openai_body prompt;
          calls' = calls @ [ModelCall openai_url (openai_headers e) b]
      in case model_fetch e openai_url (openai_headers e) b of
           None \<Rightarrow> (Rejected, calls')
         | Some r \<Rightarrow>
             if no_body r then (Rejected, calls')
             else (Responded (stream_response (openai_loop [] (up_chunks r))), calls'))"

definition gemini_stream_url :: "env \<Rightarrow> jsstring" where
  "gemini_stream_url e =
     js ''https://generativelanguage.googleapis.com/v1beta/models/gemini-1.5-flash-latest:streamGenerateContent?key=''
     @ template (GOOGLE_API_KEY e)"

definition gemini_stream_branch ::
  "env \<Rightarrow> jsstring \<Rightarrow> call list \<Rightarrow> outcome \<times> call list" where
  "gemini_stream_branch e prompt calls =
     (let b = gemini_body prompt;
          calls' = calls @ [ModelCall (gemini_stream_url e) json_headers b]
      in case model_fetch e (gemini_stream_url e) json_headers b of
           None \<Rightarrow> (Rejected, calls')
         | Some r \<Rightarrow>
             if no_body r then (Rejected, calls')
             else (Responded (stream_response (line_loop gemini_line (up_chunks r))), calls'))"

definition POST_route :: "env \<Rightarrow> request \<Rightarrow> outcome \<times> call list" where
  "POST_route e rq =
     (let (rawHtml, calls) = resolve_input_route e rq
      in if rawHtml = [] then
           (Responded (error_response (js ''No URL/HTML provided.'')), calls)
         else
           (let signals = runRules_route (cheerio_load e rawHtml);
                prompt = buildPrompt_route rawHtml signals
            in if provider rq = js ''ollama'' then
                 ollama_branch e default_ollama_model prompt calls
               else if provider rq = js ''openai'' then
                 openai_branch e prompt calls
               else if provider rq = js ''gemini'' then
                 gemini_stream_branch e prompt calls
               else (Responded (error_response (js ''Unknown provider'')), calls)))"

section \<open>Reference definitions and sample inputs\<close>

text \<open>
  The delta of the content-generation answer as the specification words it: the
  concatenation of the \<open>text\<close> fields of the first candidate's parts; the raw body when
  the extraction fails or yields the empty string.
\<close>

definition spec_delta :: "jsstring \<Rightarrow> jsstring" where
  "spec_delta textBody =
     (case JSON_parse textBody of
        None \<Rightarrow> textBody
      | Some data \<Rightarrow>
          (case extract_text data of
             None \<Rightarrow> textBody
           | Some t \<Rightarrow> if t = [] then textBody else t))"

text \<open>The extraction fails: the body is not JSON, or reading the parts throws.\<close>

definition extraction_fails :: "jsstring \<Rightarrow> bool" where
  "extraction_fails textBody \<longleftrightarrow>
     (case JSON_parse textBody of None \<Rightarrow> True | Some data \<Rightarrow> extract_text data = None)"

text \<open>The page of the end-to-end example and the document the HTML parser builds from
  it: \<open>title\<close> goes under the implied \<open>head\<close>, \<open>button\<close> under the implied \<open>body\<close>.\<close>

definition shop_html :: jsstring where
  "shop_html = js ''<html><title>Shop</title><button type=submit>Buy</button></html>''"

definition shop_document :: document where
  "shop_document =
     [Element (js ''html'') []
        [Element (js ''head'') [] [Element (js ''title'') [] [Text (js ''Shop'')]],
         Element (js ''body'') []
           [Element (js ''button'') [(js ''type'', js ''submit'')] [Text (js ''Buy'')]]]]"

text \<open>An environment whose provider answers \<open>r\<close> to every call, whose page fetch
  answers \<open>page\<close>, and a request with the example page inline.\<close>

definition sample_env :: "jsstring option \<Rightarrow> upstream \<Rightarrow> env" where
  "sample_env page r =
     \<lparr> cheerio_load = (\<lambda>h. if h = shop_html then shop_document else []),
       page_text = (\<lambda>u. page),
       model_fetch = (\<lambda>target hs b. Some r),
       GOOGLE_API_KEY = None,
       OPENAI_API_KEY = None \<rparr>"

definition sample_request :: "jsstring \<Rightarrow> request" where
  "sample_request p =
     \<lparr> url = None, html = Some shop_html, provider = p, key = Some (js ''secret''),
       model = None \<rparr>"

text \<open>A successful answer of the content-generation provider with the text \<open>Hi\<close>, and one
  that is not JSON.\<close>

definition hi_upstream :: upstream where
  \<open>hi_upstream =
     \<lparr> up_status = 200,
       up_chunks = [js ''{"candidates":[{"content":{"parts":[{"text":"Hi"}]}}]}''] \<rparr>\<close>



definition plain_upstream :: upstream where
  "plain_upstream = \<lparr> up_status = 200, up_chunks = [js ''not json''] \<rparr>"

text \<open>No API key is available from the request or from the configuration.\<close>

definition key_missing :: "env \<Rightarrow> request \<Rightarrow> bool" where
  "key_missing e rq \<longleftrightarrow>
     (key rq = None \<or> key rq = Some []) \<and> (GOOGLE_API_KEY e = None \<or> GOOGLE_API_KEY e = Some [])"

text \<open>The provider discriminators that the handler of \<open>src/unnamed/part_000\<close> knows.\<close>

definition known_provider :: "jsstring \<Rightarrow> bool" where
  "known_provider p \<longleftrightarrow> p = js ''ollama'' \<or> p = js ''gemini''"

fun is_page_fetch :: "call \<Rightarrow> bool" where
  "is_page_fetch (PageFetch u) = True"
| "is_page_fetch (ModelCall target hs b) = False"

text \<open>Requests for the samples: with an empty URL and empty HTML; with the given
  provider and no key; with both a URL and inline HTML.\<close>

definition empty_request :: request where
  "empty_request =
     \<lparr> url = Some [], html = Some [], provider = js ''ollama'', key = None, model = None \<rparr>"

definition keyless_request :: "jsstring \<Rightarrow> request" where
  "keyless_request p =
     \<lparr> url = None, html = Some shop_html, provider = p, key = None, model = None \<rparr>"

definition both_request :: request where
  "both_request =
     \<lparr> url = Some (js ''http://example.com/''), html = Some shop_html,
       provider = js ''ollama'', key = None, model = None \<rparr>"

definition remote_page :: jsstring where
  "remote_page = js ''<p>remote</p>''"

text \<open>An error answer of the local provider: status 404 and a JSON body without a
  \<open>response\<close> field.\<close>

definition error_upstream :: upstream where
  \<open>error_upstream =
     \<lparr> up_status = 404, up_chunks = [js ''{"error":"model not found"}''] \<rparr>\<close>

text \<open>The criteria of the \<open>buttons\<close> count and of the call-to-action guess, in the words
  of the specification.\<close>

definition has_class :: "node \<Rightarrow> jsstring \<Rightarrow> bool" where
  "has_class n c \<longleftrightarrow> (\<exists>a. attr n (js ''class'') = Some a \<and> c \<in> set (class_names a))"

definition button_like :: "node \<Rightarrow> bool" where
  "button_like n \<longleftrightarrow>
     tag_name n = js ''button''
     \<or> (tag_name n = js ''a'' \<and> attr n (js ''role'') = Some (js ''button''))
     \<or> has_class n (js ''btn'')
     \<or> (\<exists>v. attr n (js ''data-testid'') = Some v \<and> sublist (js ''button'') v)"

definition button_or_role :: "node \<Rightarrow> bool" where
  "button_or_role n \<longleftrightarrow>
     tag_name n = js ''button''
     \<or> (tag_name n = js ''a'' \<and> attr n (js ''role'') = Some (js ''button''))"

definition cta_candidate :: "node \<Rightarrow> bool" where
  "cta_candidate n \<longleftrightarrow>
     (tag_name n = js ''button''
        \<and> (\<exists>v. attr n (js ''type'') = Some v \<and> map lower v = js ''submit''))
     \<or> (tag_name n = js ''button'' \<and> sublist (js ''Sign in'') (text_content n))
     \<or> (tag_name n = js ''button'' \<and> sublist (js ''Buy'') (text_content n))
     \<or> (tag_name n = js ''a'' \<and> has_class n (js ''button''))"

text \<open>\<open><div class="btn">Go</div>\<close>\<close>

definition btn_document :: document where
  "btn_document = [Element (js ''div'') [(js ''class'', js ''btn'')] [Text (js ''Go'')]]"

text \<open>\<open><button class="big btn" data-testid="buy-button">Buy</button><a role="button">More</a>
  <div>x</div>\<close>: the first element meets three criteria.\<close>

definition multi_document :: document where
  "multi_document =
     [Element (js ''button'') [(js ''class'', js ''big btn''), (js ''data-testid'', js ''buy-button'')]
        [Text (js ''Buy'')],
      Element (js ''a'') [(js ''role'', js ''button'')] [Text (js ''More'')],
      Element (js ''div'') [] [Text (js ''x'')]]"

text \<open>\<open><p>Intro</p><a class="button"> Later CTA </a><button type="submit">Send</button>\<close>\<close>

definition cta_document :: document where
  "cta_document =
     [Element (js ''p'') [] [Text (js ''Intro'')],
      Element (js ''a'') [(js ''class'', js ''button'')] [Text (js '' Later CTA '')],
      Element (js ''button'') [(js ''type'', js ''submit'')] [Text (js ''Send'')]]"








text \<open>One frame of the local provider delivered whole, and the same bytes delivered in
  two reads that cut the frame.\<close>

definition whole_upstream :: upstream where
  \<open>whole_upstream = \<lparr> up_status = 200, up_chunks = [js ''{"response":"Hello"}'' @ nl] \<rparr>\<close>

definition cut_upstream :: upstream where
  \<open>cut_upstream =
     \<lparr> up_status = 200, up_chunks = [js ''{"response":"Hel'', js ''lo"}'' @ nl] \<rparr>\<close>







text \<open>A successful answer of the content-generation provider without candidates, and a
  request with a URL and no inline HTML.\<close>

definition bare_upstream :: upstream where
  "bare_upstream = \<lparr> up_status = 200, up_chunks = [js ''{}''] \<rparr>"

definition url_request :: request where
  "url_request =
     \<lparr> url = Some (js ''http://example.com/''), html = None, provider = js ''ollama'',
       key = None, model = None \<rparr>"

section \<open>Properties of the content-generation branch\<close>

lemma resolve_input_calls:
  "c \<in> set (snd (resolve_input e rq)) \<Longrightarrow> \<not> is_model_call c"
  by (auto simp: resolve_input_def Let_def split: option.splits if_splits)

lemma POST_gemini_ok:
  assumes "provider rq = js ''gemini''"
    and "ModelCall t hs b \<in> set (snd (POST e rq))"
    and "model_fetch e t hs b = Some r"
    and "ok r"
  shows "fst (POST e rq) =
           Responded \<lparr> status = 200, headers = text_headers,
             body = delta_line (JString (gemini_delta (gemini_text (concat (up_chunks r))))) \<rparr>"
proof -
  obtain rawHtml calls where ri: "resolve_input e rq = (rawHtml, calls)"
    by (cases "resolve_input e rq")
  have nomodel: "ModelCall t hs b \<notin> set calls"
    using resolve_input_calls [of "ModelCall t hs b" e rq] ri by auto
  have ng: "js ''gemini'' \<noteq> js ''ollama''"
    by (simp add: js_def)
  show ?thesis
    using assms nomodel ng
    by (auto simp: POST_def ri gemini_branch_def Let_def error_response_def
        split: option.splits if_splits)
qed

text \<open>The same branch forwards an error answer of the provider as it is, when a
  response with a body can carry the provider's status.\<close>

lemma POST_gemini_error:
  assumes "provider rq = js ''gemini''"
    and "ModelCall t hs b \<in> set (snd (POST e rq))"
    and "model_fetch e t hs b = Some r"
    and "\<not> ok r"
    and "\<not> status_refused (up_status r)"
  shows "fst (POST e rq) =
           Responded \<lparr> status = up_status r, headers = text_headers,
             body = concat (up_chunks r) \<rparr>"
proof -
  obtain rawHtml calls where ri: "resolve_input e rq = (rawHtml, calls)"
    by (cases "resolve_input e rq")
  have nomodel: "ModelCall t hs b \<notin> set calls"
    using resolve_input_calls [of "ModelCall t hs b" e rq] ri by auto
  have ng: "js ''gemini'' \<noteq> js ''ollama''"
    by (simp add: js_def)
  show ?thesis
    using assms nomodel ng
    by (auto simp: POST_def ri gemini_branch_def Let_def error_response_def
        split: option.splits if_splits)
qed





lemma escape_no_lf: "10 \<notin> set (escape c)"
  by (auto simp: escape_def hex_digit_def)

lemma quote_body_no_lf: "10 \<notin> set (quote_body s)"
  using escape_no_lf
  by (induction s rule: quote_body.induct) (auto simp: is_high_def is_low_def)

lemma delta_line_string:
  \<open>delta_line (JString d) = js ''{"delta":'' @ quote d @ js ''}'' @ nl\<close>
  by (simp add: delta_line_def js_def quote_def escape_def is_high_def is_low_def)

lemma delta_line_one_line:
  "\<exists>l. delta_line (JString d) = l @ nl \<and> 10 \<notin> set l"
  using quote_body_no_lf [of d]
  by (simp add: delta_line_string quote_def js_def)

lemma sample_calls:
  "snd (POST (sample_env pg r) (sample_request (js ''gemini''))) =
     [ModelCall (gemini_url None (js ''secret'')) json_headers
        (gemini_body (buildPrompt shop_html (runRules shop_document)))]"
  by (simp add: POST_def resolve_input_def sample_env_def sample_request_def shop_html_def
      gemini_branch_def Let_def js_def)

lemmas json_eval = JSON_parse_def js_def is_ws_def is_digit_def props_def is_index_def
  index_value_def

lemma hi_extract:
  \<open>JSON_parse (js ''{"candidates":[{"content":{"parts":[{"text":"Hi"}]}}]}'') =
     Some (JObject [(js ''candidates'', JArray [JObject [(js ''content'',
       JObject [(js ''parts'', JArray [JObject [(js ''text'', JString (js ''Hi''))]])])]])])\<close>
  by (simp add: json_eval)





lemma hi_spec_delta: "spec_delta (concat (up_chunks hi_upstream)) = js ''Hi''"
  by (simp add: spec_delta_def hi_upstream_def hi_extract extract_text_def)
    (simp add: js_def)

lemma hi_gemini_text: "gemini_text (concat (up_chunks hi_upstream)) = []"
  by (simp add: gemini_text_def hi_upstream_def hi_extract extract_text_def)

text \<open>
  Claim C1, as stated, fails: for the answer with the single part \<open>Hi\<close> the specification
  wants the delta \<open>Hi\<close>, and the handler sends \<open>[gemini ok]\<close>, a line feed and
  \<open>[empty text]\<close>.
\<close>

theorem gemini_extracted_text_counterexample:
  "ok hi_upstream
   \<and> spec_delta (concat (up_chunks hi_upstream)) = js ''Hi''
   \<and> fst (POST (sample_env None hi_upstream) (sample_request (js ''gemini''))) =
       Responded \<lparr> status = 200, headers = text_headers,
         body = delta_line (JString (js ''[gemini ok]'' @ nl @ js ''[empty text]'')) \<rparr>
   \<and> fst (POST (sample_env None hi_upstream) (sample_request (js ''gemini''))) \<noteq>
       Responded \<lparr> status = 200, headers = text_headers,
         body = delta_line (JString (spec_delta (concat (up_chunks hi_upstream)))) \<rparr>"
proof -
  let ?e = "sample_env None hi_upstream" and ?rq = "sample_request (js ''gemini'')"
  let ?t = "gemini_url None (js ''secret'')"
  let ?b = "gemini_body (buildPrompt shop_html (runRules shop_document))"
  have p: "provider ?rq = js ''gemini''"
    by (simp add: sample_request_def)
  have c: "ModelCall ?t json_headers ?b \<in> set (snd (POST ?e ?rq))"
    by (simp add: sample_calls)
  have f: "model_fetch ?e ?t json_headers ?b = Some hi_upstream"
    by (simp add: sample_env_def)
  have k: "ok hi_upstream"
    by (simp add: ok_def hi_upstream_def)
  have r: "fst (POST ?e ?rq) =
       Responded \<lparr> status = 200, headers = text_headers,
         body = delta_line (JString (js ''[gemini ok]'' @ nl @ js ''[empty text]'')) \<rparr>"
    using POST_gemini_ok [OF p c f k] by (simp add: hi_gemini_text gemini_delta_def)
  have d: "delta_line (JString (js ''[gemini ok]'' @ nl @ js ''[empty text]'')) \<noteq>
      delta_line (JString (js ''Hi''))"
    by (simp add: delta_line_string quote_def js_def nl_def escape_def is_high_def is_low_def)
  show ?thesis
    using k r d by (simp add: hi_spec_delta)
qed

text \<open>
  Claim C1, amended.  When the provider gemini answers with a success status, the
  response body is exactly one record \<open>{"delta": d}\<close> ended by the only line feed of the
  body, and \<open>d\<close> is \<open>[gemini ok]\<close>, a line feed and a payload.  When the extraction fails
  (the body is not JSON, or reading the parts throws) the payload is the raw body, or
  \<open>[empty text]\<close> for an empty body; when the extraction yields the empty string the
  payload is \<open>[empty text]\<close>.  Nothing is said of an extraction that yields a non-empty
  string.
\<close>

theorem gemini_success_body:
  assumes "provider rq = js ''gemini''"
    and "ModelCall t hs b \<in> set (snd (POST e rq))"
    and "model_fetch e t hs b = Some r"
    and "ok r"
  shows "\<exists>payload. fst (POST e rq) =
              Responded \<lparr> status = 200, headers = text_headers,
                body = delta_line (JString (js ''[gemini ok]'' @ nl @ payload)) \<rparr>
           \<and> (\<exists>l. delta_line (JString (js ''[gemini ok]'' @ nl @ payload)) = l @ nl
                  \<and> 10 \<notin> set l)
           \<and> (extraction_fails (concat (up_chunks r)) \<longrightarrow>
                 payload = (if concat (up_chunks r) = [] then js ''[empty text]''
                            else concat (up_chunks r)))
           \<and> ((\<exists>data. JSON_parse (concat (up_chunks r)) = Some data
                    \<and> extract_text data = Some []) \<longrightarrow>
                 payload = js ''[empty text]'')"
proof -
  let ?tb = "concat (up_chunks r)"
  let ?payload = "if gemini_text ?tb = [] then js ''[empty text]'' else gemini_text ?tb"
  have 1: "fst (POST e rq) =
      Responded \<lparr> status = 200, headers = text_headers,
        body = delta_line (JString (js ''[gemini ok]'' @ nl @ ?payload)) \<rparr>"
    using POST_gemini_ok [OF assms] by (simp add: gemini_delta_def)
  have 2: "extraction_fails ?tb \<Longrightarrow> gemini_text ?tb = ?tb"
    by (auto simp: extraction_fails_def gemini_text_def split: option.splits)
  have 3: "JSON_parse ?tb = Some data \<Longrightarrow> extract_text data = Some [] \<Longrightarrow> gemini_text ?tb = []"
    for data
    by (simp add: gemini_text_def)
  show ?thesis
    using 1 2 3 delta_line_one_line [of "js ''[gemini ok]'' @ nl @ ?payload"]
    by (intro exI [of _ ?payload]) auto
qed

lemma plain_not_json: "JSON_parse (js ''not json'') = None"
  by (simp add: json_eval)

theorem gemini_success_body_witness:
  "provider (sample_request (js ''gemini'')) = js ''gemini''
   \<and> ok plain_upstream
   \<and> extraction_fails (concat (up_chunks plain_upstream))
   \<and> fst (POST (sample_env None plain_upstream) (sample_request (js ''gemini''))) =
       Responded \<lparr> status = 200, headers = text_headers,
         body = delta_line (JString (js ''[gemini ok]'' @ nl @ js ''not json'')) \<rparr>
   \<and> ok bare_upstream
   \<and> (\<exists>data. JSON_parse (concat (up_chunks bare_upstream)) = Some data
          \<and> extract_text data = Some [])
   \<and> fst (POST (sample_env None bare_upstream) (sample_request (js ''gemini''))) =
       Responded \<lparr> status = 200, headers = text_headers,
         body = delta_line (JString (js ''[gemini ok]'' @ nl @ js ''[empty text]'')) \<rparr>"
proof -
  let ?rq = "sample_request (js ''gemini'')"
  let ?t = "gemini_url None (js ''secret'')"
  let ?b = "gemini_body (buildPrompt shop_html (runRules shop_document))"
  have p: "provider ?rq = js ''gemini''"
    by (simp add: sample_request_def)
  have c: "ModelCall ?t json_headers ?b \<in> set (snd (POST (sample_env None r) ?rq))" for r
    by (simp add: sample_calls)
  have f: "model_fetch (sample_env None r) ?t json_headers ?b = Some r" for r
    by (simp add: sample_env_def)
  have k: "ok plain_upstream" "ok bare_upstream"
    by (simp_all add: ok_def plain_upstream_def bare_upstream_def)
  have x: "extraction_fails (concat (up_chunks plain_upstream))"
    by (simp add: extraction_fails_def plain_upstream_def plain_not_json)
  have n: "concat (up_chunks plain_upstream) = js ''not json''"
    by (simp add: plain_upstream_def)
  have ne: "js ''not json'' \<noteq> []"
    by (simp add: js_def)
  have y: "\<exists>data. JSON_parse (concat (up_chunks bare_upstream)) = Some data
      \<and> extract_text data = Some []"
    by (simp add: bare_upstream_def extract_text_def json_eval)
  have 1: "fst (POST (sample_env None plain_upstream) ?rq) =
       Responded \<lparr> status = 200, headers = text_headers,
         body = delta_line (JString (js ''[gemini ok]'' @ nl @ js ''not json'')) \<rparr>"
    using gemini_success_body [OF p c f k(1)] x n ne by auto
  have 2: "fst (POST (sample_env None bare_upstream) ?rq) =
       Responded \<lparr> status = 200, headers = text_headers,
         body = delta_line (JString (js ''[gemini ok]'' @ nl @ js ''[empty text]'')) \<rparr>"
    using gemini_success_body [OF p c f k(2)] y by auto
  show ?thesis
    using p k x y 1 2 by blast
qed

section \<open>Properties of input resolution and of the input errors\<close>

lemma POST_calls:
  "\<exists>ms. snd (POST e rq) = snd (resolve_input e rq) @ ms \<and> list_all is_model_call ms
      \<and> (fst (resolve_input e rq) = [] \<or> \<not> known_provider (provider rq)
            \<or> (provider rq = js ''gemini'' \<and> key_missing e rq) \<longrightarrow> ms = [])"
proof -
  obtain rawHtml calls where ri: "resolve_input e rq = (rawHtml, calls)"
    by (cases "resolve_input e rq")
  have ng: "js ''gemini'' \<noteq> js ''ollama''"
    by (simp add: js_def)
  show ?thesis
    using ng
    by (cases "key rq"; cases "GOOGLE_API_KEY e"; cases "the (key rq)"; cases "the (GOOGLE_API_KEY e)")
      (auto simp: POST_def ri ollama_branch_def gemini_branch_def Let_def known_provider_def
        key_missing_def split: option.splits)
qed

lemma resolve_input_page_fetch:
  "list_all is_page_fetch (snd (resolve_input e rq))"
  by (auto simp: resolve_input_def Let_def split: option.splits)

lemma POST_error_cases:
  assumes "fst (resolve_input e rq) = [] \<or> \<not> known_provider (provider rq)
             \<or> (provider rq = js ''gemini'' \<and> key_missing e rq)"
  shows "\<exists>msg. fst (POST e rq) = Responded (error_response msg)"
proof -
  obtain rawHtml calls where ri: "resolve_input e rq = (rawHtml, calls)"
    by (cases "resolve_input e rq")
  have ng: "js ''gemini'' \<noteq> js ''ollama''"
    by (simp add: js_def)
  show ?thesis
    using assms ng
    by (cases "key rq"; cases "GOOGLE_API_KEY e"; cases "the (key rq)"; cases "the (GOOGLE_API_KEY e)")
      (auto simp: POST_def ri gemini_branch_def Let_def known_provider_def
        key_missing_def split: option.splits)
qed

text \<open>
  Claim C7.  In the handler of \<open>src/unnamed/part_000\<close>, a request that resolves to empty
  markup, or whose provider is neither \<open>ollama\<close> nor \<open>gemini\<close>, or that asks for \<open>gemini\<close>
  with no key in the request or the configuration, is answered with status 400 and a
  JSON body \<open>{"error": msg}\<close>, and no call to a model provider is made.
\<close>

theorem input_errors_fail_fast:
  assumes "fst (resolve_input e rq) = [] \<or> \<not> known_provider (provider rq)
             \<or> (provider rq = js ''gemini'' \<and> key_missing e rq)"
  shows "\<exists>msg. fst (POST e rq) =
             Responded \<lparr> status = 400, headers = json_headers,
               body = stringify (JObject [(js ''error'', JString msg)]) \<rparr>
           \<and> list_all (\<lambda>c. \<not> is_model_call c) (snd (POST e rq))"
proof -
  obtain ms where ms: "snd (POST e rq) = snd (resolve_input e rq) @ ms" "ms = []"
    using POST_calls [of e rq] assms by blast
  have "list_all (\<lambda>c. \<not> is_model_call c) (snd (resolve_input e rq))"
    using resolve_input_calls [of _ e rq] by (simp add: list_all_iff)
  then show ?thesis
    using POST_error_cases [OF assms] ms by (auto simp: error_response_def)
qed

theorem input_errors_fail_fast_witness:
  "fst (resolve_input (sample_env None hi_upstream) empty_request) = []
   \<and> fst (POST (sample_env None hi_upstream) empty_request) =
        Responded \<lparr> status = 400, headers = json_headers,
          body = stringify (JObject [(js ''error'', JString (js ''No URL/HTML provided.''))]) \<rparr>
   \<and> snd (POST (sample_env None hi_upstream) empty_request) = []
   \<and> \<not> known_provider (provider (keyless_request (js ''openai'')))
   \<and> (\<exists>msg. fst (POST (sample_env None hi_upstream) (keyless_request (js ''openai''))) =
          Responded \<lparr> status = 400, headers = json_headers,
            body = stringify (JObject [(js ''error'', JString msg)]) \<rparr>)
   \<and> list_all (\<lambda>c. \<not> is_model_call c)
        (snd (POST (sample_env None hi_upstream) (keyless_request (js ''openai''))))
   \<and> key_missing (sample_env None hi_upstream) (keyless_request (js ''gemini''))
   \<and> (\<exists>msg. fst (POST (sample_env None hi_upstream) (keyless_request (js ''gemini''))) =
          Responded \<lparr> status = 400, headers = json_headers,
            body = stringify (JObject [(js ''error'', JString msg)]) \<rparr>)
   \<and> list_all (\<lambda>c. \<not> is_model_call c)
        (snd (POST (sample_env None hi_upstream) (keyless_request (js ''gemini''))))"
proof -
  let ?e = "sample_env None hi_upstream"
  have a: "fst (resolve_input ?e empty_request) = []"
    by (simp add: resolve_input_def empty_request_def)
  have b: "POST ?e empty_request =
      (Responded (error_response (js ''No URL/HTML provided.'')), [])"
    by (simp add: POST_def resolve_input_def empty_request_def)
  have u: "\<not> known_provider (provider (keyless_request (js ''openai'')))"
    by (simp add: known_provider_def keyless_request_def js_def)
  have k: "key_missing ?e (keyless_request (js ''gemini''))"
    by (simp add: key_missing_def keyless_request_def sample_env_def)
  have p: "provider (keyless_request (js ''gemini'')) = js ''gemini''"
    by (simp add: keyless_request_def)
  show ?thesis
    using input_errors_fail_fast [of ?e empty_request]
      input_errors_fail_fast [of ?e "keyless_request (js ''openai'')"]
      input_errors_fail_fast [of ?e "keyless_request (js ''gemini'')"] a b u k p
    by (auto simp: error_response_def)
qed

lemma resolve_input_inline:
  "html rq = Some h \<Longrightarrow> h \<noteq> [] \<Longrightarrow> resolve_input e rq = (h, [])"
  by (cases h) (auto simp: resolve_input_def Let_def split: option.splits)

lemma POST_ignores_url:
  assumes "html rq = Some h" and "h \<noteq> []"
  shows "POST e rq = POST e (rq\<lparr>url := None\<rparr>)"
proof -
  have "resolve_input e (rq\<lparr>url := None\<rparr>) = (h, [])"
    using assms by (intro resolve_input_inline) auto
  then show ?thesis
    using resolve_input_inline [OF assms, of e]
    by (auto simp: POST_def gemini_branch_def Let_def split: option.splits)
qed

lemma resolve_input_fetch:
  assumes "PageFetch u \<in> set (snd (resolve_input e rq))"
  shows "(html rq = None \<or> html rq = Some []) \<and> url rq = Some u
           \<and> snd (resolve_input e rq) = [PageFetch u]"
proof -
  have "template (or_else (html rq) (Some [])) = [] \<Longrightarrow> html rq = None \<or> html rq = Some []"
    by (cases "html rq"; cases "the (html rq)") auto
  then show ?thesis
    using assms
    by (auto simp: resolve_input_def Let_def split: option.splits if_splits)
qed

lemma POST_page_fetch:
  "PageFetch u \<in> set (snd (POST e rq)) \<longleftrightarrow> PageFetch u \<in> set (snd (resolve_input e rq))"
proof -
  obtain ms where "snd (POST e rq) = snd (resolve_input e rq) @ ms" "list_all is_model_call ms"
    using POST_calls [of e rq] by blast
  then show ?thesis
    by (auto simp: list_all_iff)
qed

lemma resolve_input_route_fetch:
  assumes "url rq = Some u" and "prefix (js ''http'') u"
  shows "snd (resolve_input_route e rq) = [PageFetch u]"
    and "page_text e u = Some t \<Longrightarrow> fst (resolve_input_route e rq) = t"
proof -
  have "u \<noteq> []"
    using assms(2) by (auto simp: js_def)
  then show "snd (resolve_input_route e rq) = [PageFetch u]"
    and "page_text e u = Some t \<Longrightarrow> fst (resolve_input_route e rq) = t"
    using assms by (auto simp: resolve_input_route_def Let_def split: option.splits)
qed

lemma POST_route_calls:
  "\<exists>ms. snd (POST_route e rq) = snd (resolve_input_route e rq) @ ms
      \<and> list_all is_model_call ms"
proof -
  obtain rawHtml calls where ri: "resolve_input_route e rq = (rawHtml, calls)"
    by (cases "resolve_input_route e rq")
  show ?thesis
    by (auto simp: POST_route_def ri ollama_branch_def openai_branch_def
        gemini_stream_branch_def Let_def split: option.splits)
qed

lemma model_call_not_page_fetch: "is_model_call c \<Longrightarrow> \<not> is_page_fetch c"
  by (cases c) auto

lemma POST_route_one_fetch:
  assumes "url rq = Some u" and "prefix (js ''http'') u"
  shows "filter is_page_fetch (snd (POST_route e rq)) = [PageFetch u]"
proof -
  obtain ms where ms: "snd (POST_route e rq) = snd (resolve_input_route e rq) @ ms"
    "list_all is_model_call ms"
    using POST_route_calls [of e rq] by blast
  have "filter is_page_fetch ms = []"
    using ms(2) model_call_not_page_fetch by (auto simp: list_all_iff filter_empty_conv)
  then show ?thesis
    using resolve_input_route_fetch(1) [OF assms, of e] ms(1) by simp
qed

text \<open>The handler of \<open>route.ts\<close> with a page fetched does, after the fetch, what it does
  for a request with that page inline and no URL.\<close>

lemma POST_route_fetched:
  assumes "url rq = Some u" and "prefix (js ''http'') u" and "page_text e u = Some t"
  shows "fst (POST_route e rq) = fst (POST_route e (rq\<lparr>url := None, html := Some t\<rparr>))"
    and "snd (POST_route e rq) =
           PageFetch u # snd (POST_route e (rq\<lparr>url := None, html := Some t\<rparr>))"
proof -
  have 1: "resolve_input_route e rq = (t, [PageFetch u])"
    using resolve_input_route_fetch(1) [OF assms(1,2), of e]
      resolve_input_route_fetch(2) [OF assms]
    by (cases "resolve_input_route e rq") auto
  have 2: "resolve_input_route e (rq\<lparr>url := None, html := Some t\<rparr>) = (t, [])"
    by (cases t) (simp_all add: resolve_input_route_def)
  show "fst (POST_route e rq) = fst (POST_route e (rq\<lparr>url := None, html := Some t\<rparr>))"
    by (auto simp: POST_route_def 1 2 ollama_branch_def openai_branch_def
        gemini_stream_branch_def Let_def split: option.splits)
  show "snd (POST_route e rq) =
      PageFetch u # snd (POST_route e (rq\<lparr>url := None, html := Some t\<rparr>))"
    by (auto simp: POST_route_def 1 2 ollama_branch_def openai_branch_def
        gemini_stream_branch_def Let_def split: option.splits)
qed

text \<open>
  Claim C3, as stated, fails for the handler of \<open>src/app/api/analyze/route.ts\<close>: given
  inline HTML and a URL, it fetches the URL and audits the page fetched.
\<close>

theorem inline_html_first_counterexample:
  "html both_request = Some shop_html \<and> shop_html \<noteq> []
   \<and> resolve_input_route (sample_env (Some remote_page) hi_upstream) both_request =
        (remote_page, [PageFetch (js ''http://example.com/'')])
   \<and> remote_page \<noteq> shop_html
   \<and> PageFetch (js ''http://example.com/'')
        \<in> set (snd (POST_route (sample_env (Some remote_page) hi_upstream) both_request))"
proof -
  let ?e = "sample_env (Some remote_page) hi_upstream"
  have r: "resolve_input_route ?e both_request =
      (remote_page, [PageFetch (js ''http://example.com/'')])"
    by (simp add: resolve_input_route_def both_request_def sample_env_def js_def)
  obtain ms where "snd (POST_route ?e both_request) = snd (resolve_input_route ?e both_request) @ ms"
    using POST_route_calls by blast
  then have "PageFetch (js ''http://example.com/'') \<in> set (snd (POST_route ?e both_request))"
    by (simp add: r)
  then show ?thesis
    using r by (simp add: both_request_def) (simp add: shop_html_def remote_page_def js_def)
qed

text \<open>
  Claim C3, amended.  In the handler of \<open>src/unnamed/part_000\<close>, a non-empty inline
  \<open>html\<close> is the markup audited and no page is fetched, whatever \<open>url\<close> is (the handler
  does what it does without the \<open>url\<close>); a page is fetched only when the inline HTML is
  absent or empty and a URL is given, and then once.  In the handler of
  \<open>src/app/api/analyze/route.ts\<close>, a URL that starts with \<open>http\<close> is always fetched, once
  and before any other call, and the text fetched is the markup audited: the handler
  goes on as it does for a request with that text inline and no URL.
\<close>

theorem inline_html_first:
  "(\<forall>h. html rq = Some h \<and> h \<noteq> [] \<longrightarrow>
        resolve_input e rq = (h, [])
      \<and> POST e rq = POST e (rq\<lparr>url := None\<rparr>)
      \<and> list_all (\<lambda>c. \<not> is_page_fetch c) (snd (POST e rq)))
   \<and> (\<forall>u. PageFetch u \<in> set (snd (POST e rq)) \<longrightarrow>
        (html rq = None \<or> html rq = Some []) \<and> url rq = Some u
      \<and> filter is_page_fetch (snd (POST e rq)) = [PageFetch u])
   \<and> (\<forall>u. url rq = Some u \<and> prefix (js ''http'') u \<longrightarrow>
        (\<exists>ms. snd (POST_route e rq) = PageFetch u # ms)
      \<and> filter is_page_fetch (snd (POST_route e rq)) = [PageFetch u]
      \<and> snd (resolve_input_route e rq) = [PageFetch u]
      \<and> (\<forall>t. page_text e u = Some t \<longrightarrow>
             fst (resolve_input_route e rq) = t
           \<and> fst (POST_route e rq) = fst (POST_route e (rq\<lparr>url := None, html := Some t\<rparr>))
           \<and> snd (POST_route e rq) =
               PageFetch u # snd (POST_route e (rq\<lparr>url := None, html := Some t\<rparr>))))"
proof (intro conjI allI impI)
  fix h assume h: "html rq = Some h \<and> h \<noteq> []"
  then show "resolve_input e rq = (h, [])"
    by (simp add: resolve_input_inline)
  show "POST e rq = POST e (rq\<lparr>url := None\<rparr>)"
    using h POST_ignores_url by blast
  obtain ms where "snd (POST e rq) = snd (resolve_input e rq) @ ms" "list_all is_model_call ms"
    using POST_calls [of e rq] by blast
  moreover have "is_model_call c \<Longrightarrow> \<not> is_page_fetch c" for c
    by (cases c) auto
  ultimately show "list_all (\<lambda>c. \<not> is_page_fetch c) (snd (POST e rq))"
    using h by (auto simp: resolve_input_inline list_all_iff)
next
  fix u assume u: "PageFetch u \<in> set (snd (POST e rq))"
  then have f: "PageFetch u \<in> set (snd (resolve_input e rq))"
    by (simp add: POST_page_fetch)
  show "html rq = None \<or> html rq = Some []" and "url rq = Some u"
    using resolve_input_fetch [OF f] by auto
  obtain ms where ms: "snd (POST e rq) = snd (resolve_input e rq) @ ms" "list_all is_model_call ms"
    using POST_calls [of e rq] by blast
  have "is_model_call c \<Longrightarrow> \<not> is_page_fetch c" for c
    by (cases c) auto
  then have "filter is_page_fetch ms = []"
    using ms(2) by (auto simp: list_all_iff filter_empty_conv)
  then show "filter is_page_fetch (snd (POST e rq)) = [PageFetch u]"
    using resolve_input_fetch [OF f] ms(1) by simp
next
  fix u assume u: "url rq = Some u \<and> prefix (js ''http'') u"
  show "snd (resolve_input_route e rq) = [PageFetch u]"
    using u resolve_input_route_fetch(1) by blast
  then show "\<exists>ms. snd (POST_route e rq) = PageFetch u # ms"
    using POST_route_calls [of e rq] by auto
  show "filter is_page_fetch (snd (POST_route e rq)) = [PageFetch u]"
    using u POST_route_one_fetch by blast
  fix t assume t: "page_text e u = Some t"
  then show "fst (resolve_input_route e rq) = t"
    using u resolve_input_route_fetch(2) by blast
  show "fst (POST_route e rq) = fst (POST_route e (rq\<lparr>url := None, html := Some t\<rparr>))"
    using u t POST_route_fetched(1) by blast
  show "snd (POST_route e rq) =
      PageFetch u # snd (POST_route e (rq\<lparr>url := None, html := Some t\<rparr>))"
    using u t POST_route_fetched(2) by blast
qed

theorem inline_html_first_witness:
  "html both_request = Some shop_html \<and> shop_html \<noteq> []
   \<and> resolve_input (sample_env (Some remote_page) hi_upstream) both_request = (shop_html, [])
   \<and> list_all (\<lambda>c. \<not> is_page_fetch c)
        (snd (POST (sample_env (Some remote_page) hi_upstream) both_request))
   \<and> PageFetch (js ''http://example.com/'')
        \<in> set (snd (POST (sample_env (Some remote_page) hi_upstream) url_request))
   \<and> html url_request = None
   \<and> filter is_page_fetch (snd (POST (sample_env (Some remote_page) hi_upstream) url_request)) =
        [PageFetch (js ''http://example.com/'')]
   \<and> url both_request = Some (js ''http://example.com/'')
   \<and> prefix (js ''http'') (js ''http://example.com/'')
   \<and> snd (resolve_input_route (sample_env (Some remote_page) hi_upstream) both_request) =
        [PageFetch (js ''http://example.com/'')]
   \<and> filter is_page_fetch
        (snd (POST_route (sample_env (Some remote_page) hi_upstream) both_request)) =
        [PageFetch (js ''http://example.com/'')]
   \<and> page_text (sample_env (Some remote_page) hi_upstream) (js ''http://example.com/'') =
        Some remote_page
   \<and> fst (resolve_input_route (sample_env (Some remote_page) hi_upstream) both_request) =
        remote_page
   \<and> fst (POST_route (sample_env (Some remote_page) hi_upstream) both_request) =
        fst (POST_route (sample_env (Some remote_page) hi_upstream)
               (both_request\<lparr>url := None, html := Some remote_page\<rparr>))"
proof -
  let ?e = "sample_env (Some remote_page) hi_upstream"
  have a: "html both_request = Some shop_html \<and> shop_html \<noteq> []"
    by (simp add: both_request_def) (simp add: shop_html_def js_def)
  have b: "url both_request = Some (js ''http://example.com/'')
      \<and> prefix (js ''http'') (js ''http://example.com/'')"
    by (simp add: both_request_def) (simp add: js_def)
  have c: "page_text ?e (js ''http://example.com/'') = Some remote_page"
    by (simp add: sample_env_def)
  have "snd (resolve_input ?e url_request) = [PageFetch (js ''http://example.com/'')]"
    by (simp add: resolve_input_def url_request_def sample_env_def is_http_url_def
        prefix_ci_def lower_def js_def)
  then have d: "PageFetch (js ''http://example.com/'') \<in> set (snd (POST ?e url_request))"
    by (simp add: POST_page_fetch)
  have h: "html url_request = None"
    by (simp add: url_request_def)
  show ?thesis
    using inline_html_first [of both_request ?e] inline_html_first [of url_request ?e]
      a b c d h by blast
qed

section \<open>Upstream errors of the streaming branches\<close>

lemma ollama_model_default: "ollama_model None = default_ollama_model"
  by (simp add: ollama_model_def default_ollama_model_def prefix_ci_def js_def lower_def)

lemma POST_sample_ollama:
  "\<not> no_body r \<Longrightarrow>
   POST (sample_env None r) (sample_request (js ''ollama'')) =
     (Responded (stream_response (line_loop ollama_line (up_chunks r))),
      [ModelCall ollama_url json_headers
         (ollama_body default_ollama_model (buildPrompt shop_html (runRules shop_document)))])"
proof -
  have "shop_html \<noteq> []"
    by (simp add: shop_html_def js_def)
  then have ri: "resolve_input (sample_env None r) (sample_request (js ''ollama'')) =
      (shop_html, [])"
    by (intro resolve_input_inline) (simp_all add: sample_request_def)
  assume "\<not> no_body r"
  then show ?thesis
    unfolding POST_def ri using \<open>shop_html \<noteq> []\<close>
    by (simp add: sample_env_def sample_request_def ollama_branch_def Let_def
        ollama_model_default)
qed

lemma sample_bodies:
  "\<not> no_body error_upstream" "\<not> no_body whole_upstream" "\<not> no_body cut_upstream"
  by (simp_all add: no_body_def null_body_status_def error_upstream_def whole_upstream_def
      cut_upstream_def)

lemma error_body_no_delta: "line_loop ollama_line (up_chunks error_upstream) = []"
  by (simp add: error_upstream_def split_nl_def ollama_line_def emit_def json_eval)

text \<open>
  Claim C2 at a failing input: the local provider answers 404 with an error body, and
  the handler of \<open>src/unnamed/part_000\<close> responds with status 200 and an empty body.
\<close>

theorem ollama_error_not_forwarded:
  "\<not> ok error_upstream
   \<and> POST (sample_env None error_upstream) (sample_request (js ''ollama'')) =
       (Responded \<lparr> status = 200, headers = stream_headers, body = [] \<rparr>,
        [ModelCall ollama_url json_headers
           (ollama_body default_ollama_model (buildPrompt shop_html (runRules shop_document)))])
   \<and> up_status error_upstream = 404
   \<and> concat (up_chunks error_upstream) \<noteq> []"
proof -
  have "POST (sample_env None error_upstream) (sample_request (js ''ollama'')) =
       (Responded \<lparr> status = 200, headers = stream_headers, body = [] \<rparr>,
        [ModelCall ollama_url json_headers
           (ollama_body default_ollama_model (buildPrompt shop_html (runRules shop_document)))])"
    by (simp add: POST_sample_ollama sample_bodies error_body_no_delta stream_response_def)
  then show ?thesis
    by (simp add: ok_def error_upstream_def js_def)
qed

section \<open>Properties of the signal extraction and of the prompt\<close>

lemmas dom_eval = select_def all_elements_def matches_def first_def text_of_def trim_def
  is_space_def js_def attr_equals_def lower_def class_names_def

lemma str_includes_sublist: "str_includes s t \<longleftrightarrow> sublist t s"
  by (induction s) (auto simp: sublist_Cons_right)

lemma matches_buttons: "matches sel_buttons n \<longleftrightarrow> button_like n"
proof -
  have "js ''button'' \<noteq> []"
    by (simp add: js_def)
  then show ?thesis
    by (auto simp: matches_def sel_buttons_def button_like_def has_class_def
        attr_equals_def str_includes_sublist js_def split: option.splits)
qed

lemma matches_buttons_route: "matches sel_buttons_route n \<longleftrightarrow> button_or_role n"
  by (auto simp: matches_def sel_buttons_route_def button_or_role_def attr_equals_def js_def
      split: option.splits)

lemma matches_cta: "matches sel_cta n \<longleftrightarrow> cta_candidate n"
proof -
  have "map lower (js ''submit'') = js ''submit''"
    by (simp add: js_def lower_def)
  then show ?thesis
    by (auto simp: matches_def sel_cta_def cta_candidate_def has_class_def
        attr_equals_def str_includes_sublist split: option.splits)
qed

text \<open>
  Claim C4, as stated, fails for the extractor of \<open>src/app/api/analyze/route.ts\<close>: the
  element of \<open><div class="btn">Go</div>\<close> has the class \<open>btn\<close> and is not counted.
\<close>

theorem buttons_count_counterexample:
  "all_elements btn_document = btn_document
   \<and> button_like (btn_document ! 0)
   \<and> card {i. i < length (all_elements btn_document) \<and> button_like (all_elements btn_document ! i)} = 1
   \<and> buttons (runRules_route btn_document) = 0"
proof -
  have a: "all_elements btn_document = btn_document"
    by (simp add: all_elements_def btn_document_def)
  have b: "button_like (btn_document ! 0)"
    by (simp add: btn_document_def button_like_def has_class_def dom_eval)
  have "length (filter button_like (all_elements btn_document)) = 1"
    using b by (simp add: a) (simp add: btn_document_def)
  then have c: "card {i. i < length (all_elements btn_document)
      \<and> button_like (all_elements btn_document ! i)} = 1"
    by (simp add: length_filter_conv_card)
  have d: "buttons (runRules_route btn_document) = 0"
    by (simp add: runRules_route_def sel_buttons_route_def btn_document_def dom_eval)
  show ?thesis
    using a b c d by simp
qed

text \<open>
  Claim C4, amended.  The \<open>buttons\<close> field of the extractor of \<open>src/unnamed/part_000\<close> is
  the number of elements of the document that are a \<open>button\<close> element, an anchor with
  \<open>role=button\<close>, an element with the class \<open>btn\<close>, or an element whose \<open>data-testid\<close>
  contains \<open>button\<close>; each element counts once, by its position in the document.  The
  field of the extractor of \<open>src/app/api/analyze/route.ts\<close> is the number of elements
  that are a \<open>button\<close> element or an anchor with \<open>role=button\<close>.
\<close>

theorem buttons_count:
  "buttons (runRules d) =
     card {i. i < length (all_elements d) \<and> button_like (all_elements d ! i)}
   \<and> buttons (runRules_route d) =
     card {i. i < length (all_elements d) \<and> button_or_role (all_elements d ! i)}"
proof -
  have "matches sel_buttons = button_like"
    by (rule ext) (rule matches_buttons)
  moreover have "matches sel_buttons_route = button_or_role"
    by (rule ext) (rule matches_buttons_route)
  ultimately show ?thesis
    by (simp add: runRules_def runRules_route_def select_def length_filter_conv_card)
qed

theorem buttons_count_witness:
  "buttons (runRules multi_document) = 2
   \<and> card {i. i < length (all_elements multi_document)
            \<and> button_like (all_elements multi_document ! i)} = 2
   \<and> length (all_elements multi_document) = 3"
proof -
  have "buttons (runRules multi_document) = 2"
    by (simp add: runRules_def sel_buttons_def multi_document_def dom_eval)
  moreover have "length (all_elements multi_document) = 3"
    by (simp add: all_elements_def multi_document_def)
  ultimately show ?thesis
    using buttons_count [of multi_document] by simp
qed

lemma first_match:
  assumes "\<exists>x \<in> set xs. P x"
  shows "\<exists>i < length xs. P (xs ! i) \<and> (\<forall>j < i. \<not> P (xs ! j)) \<and> take 1 (filter P xs) = [xs ! i]"
  using assms
proof (induction xs)
  case Nil
  then show ?case by simp
next
  case (Cons x xs)
  show ?case
  proof (cases "P x")
    case True
    then show ?thesis by (intro exI [of _ 0]) simp
  next
    case False
    then obtain i where i: "i < length xs" "P (xs ! i)" "\<forall>j < i. \<not> P (xs ! j)"
      "take 1 (filter P xs) = [xs ! i]"
      using Cons by auto
    have "\<forall>j < Suc i. \<not> P ((x # xs) ! j)"
      using False i(3) by (auto simp: less_Suc_eq_0_disj)
    then show ?thesis
      using False i by (intro exI [of _ "Suc i"]) simp
  qed
qed

text \<open>
  Claim C5.  When at least one element of the document is a call-to-action candidate (a
  submit button, a button whose text contains \<open>Sign in\<close> or \<open>Buy\<close>, an anchor with the
  class \<open>button\<close>), \<open>primaryCtaGuess\<close> is the trimmed text of the candidate that comes
  first in document order, whichever criterion it meets; this holds for the extractors
  of both handlers.
\<close>

theorem primary_cta_document_order:
  assumes "\<exists>n \<in> set (all_elements d). cta_candidate n"
  shows "\<exists>i < length (all_elements d).
           cta_candidate (all_elements d ! i)
         \<and> (\<forall>j < i. \<not> cta_candidate (all_elements d ! j))
         \<and> primaryCtaGuess (runRules d) = trim (text_content (all_elements d ! i))
         \<and> primaryCtaGuess (runRules_route d) = trim (text_content (all_elements d ! i))"
proof -
  obtain i where i: "i < length (all_elements d)" "cta_candidate (all_elements d ! i)"
    "\<forall>j < i. \<not> cta_candidate (all_elements d ! j)"
    "take 1 (filter cta_candidate (all_elements d)) = [all_elements d ! i]"
    using first_match [OF assms] by blast
  have "matches sel_cta = cta_candidate"
    by (rule ext) (rule matches_cta)
  then have "text_of (first (select d sel_cta)) = text_content (all_elements d ! i)"
    using i(4) by (simp add: select_def first_def text_of_def)
  then show ?thesis
    using i(1-3) by (auto simp: runRules_def runRules_route_def)
qed

theorem primary_cta_document_order_witness:
  "cta_candidate (all_elements cta_document ! 1)
   \<and> cta_candidate (all_elements cta_document ! 2)
   \<and> tag_name (all_elements cta_document ! 1) = js ''a''
   \<and> primaryCtaGuess (runRules cta_document) = js ''Later CTA''
   \<and> text_of (first (select cta_document [hd sel_cta])) = js ''Send''"
proof -
  have e: "all_elements cta_document = cta_document"
    by (simp add: all_elements_def cta_document_def)
  have c1: "cta_candidate (all_elements cta_document ! 1)"
    by (simp add: e) (simp add: cta_document_def cta_candidate_def has_class_def dom_eval)
  have c2: "cta_candidate (all_elements cta_document ! 2)"
    by (simp add: e) (simp add: cta_document_def cta_candidate_def has_class_def dom_eval)
  have c0: "\<not> cta_candidate (all_elements cta_document ! 0)"
    by (simp add: e) (simp add: cta_document_def cta_candidate_def has_class_def dom_eval)
  have t: "trim (text_content (all_elements cta_document ! 1)) = js ''Later CTA''"
    by (simp add: e) (simp add: cta_document_def dom_eval)
  have s: "text_of (first (select cta_document [hd sel_cta])) = js ''Send''"
    by (simp add: sel_cta_def cta_document_def dom_eval)
  have "length (all_elements cta_document) = 3"
    by (simp add: e) (simp add: cta_document_def)
  then have "\<exists>n \<in> set (all_elements cta_document). cta_candidate n"
    using c1 nth_mem [of 1 "all_elements cta_document"] by auto
  then obtain i where i: "i < length (all_elements cta_document)"
    "cta_candidate (all_elements cta_document ! i)"
    "\<forall>j < i. \<not> cta_candidate (all_elements cta_document ! j)"
    "primaryCtaGuess (runRules cta_document) = trim (text_content (all_elements cta_document ! i))"
    using primary_cta_document_order [of cta_document] by blast
  have "i = 1"
  proof (rule ccontr)
    assume "i \<noteq> 1"
    then have "i = 0 \<or> 1 < i" by auto
    then show False using i(2,3) c0 c1 by auto
  qed
  then show ?thesis
    using i(4) t s c1 c2 by (simp add: e) (simp add: cta_document_def js_def)
qed

lemma signal_lines_cta:
  "sublist (js ''primaryCtaGuess: '' @ [34] @ or_none (primaryCtaGuess sg) @ [34])
     (signal_lines sg)"
proof -
  have 1: "js '', primaryCtaGuess: '' = js '', '' @ js ''primaryCtaGuess: ''"
    by (simp add: js_def)
  let ?ps = "js ''### Extracted signals'' @ nl
     @ js ''- title: '' @ or_none (title sg) @ nl
     @ js ''- hasViewport: '' @ bool_text (hasViewport sg) @ nl
     @ js ''- forms: '' @ decimal (forms sg) @ js '', inputs: '' @ decimal (inputs sg)
       @ js '', labels: '' @ decimal (labels sg) @ nl
     @ js ''- buttons: '' @ decimal (buttons sg) @ js '', ''"
  let ?ss = "nl
     @ js ''- hasInlineValidationHint: '' @ bool_text (hasInlineValidationHint sg) @ nl
     @ js ''- hasProgress: '' @ bool_text (hasProgress sg) @ nl"
  have "signal_lines sg =
      ?ps @ (js ''primaryCtaGuess: '' @ [34] @ or_none (primaryCtaGuess sg) @ [34]) @ ?ss"
    by (simp only: signal_lines_def 1 append_assoc)
  then show ?thesis
    unfolding sublist_def by blast
qed

lemma prompt_signal_lines:
  "\<exists>ps ss. buildPrompt h sg = ps @ signal_lines sg @ ss"
proof -
  let ?ps = "js ''You are a UX auditor.'' @ nl
     @ js ''Analyse the provided page using the extracted signals and the raw HTML.'' @ nl
     @ js ''Return 5'' @ [226, 8364, 8220]
       @ js ''10 actionable usability improvements in Markdown, grouped by High, Medium, and Low priority.''
       @ nl
     @ js ''For each item include: Issue, Impact, Recommendation. Use concise British English.''
       @ nl
     @ js ''Do not wrap the whole response in code fences.'' @ nl
     @ nl"
  let ?ss = "nl @ js ''### Raw HTML (may be truncated)'' @ nl @ take 4000 h @ nl"
  have "buildPrompt h sg = ?ps @ signal_lines sg @ ?ss"
    by (simp only: buildPrompt_def append_assoc)
  then show ?thesis by blast
qed

lemma prompt_cta:
  "sublist (js ''primaryCtaGuess: '' @ [34] @ or_none (primaryCtaGuess sg) @ [34])
     (buildPrompt h sg)"
proof -
  obtain ps ss where "buildPrompt h sg = ps @ signal_lines sg @ ss"
    using prompt_signal_lines by blast
  then show ?thesis
    using signal_lines_cta [of sg] by (simp add: sublist_append)
qed

lemma shop_signals:
  "runRules shop_document =
     \<lparr> title = js ''Shop'', hasViewport = False, forms = 0, inputs = 0, labels = 0,
       buttons = 1, primaryCtaGuess = js ''Buy'', hasInlineValidationHint = False,
       hasProgress = False \<rparr>"
  by (simp add: runRules_def shop_document_def sel_title_def sel_viewport_def sel_forms_def
      sel_inputs_def sel_labels_def sel_buttons_def sel_cta_def sel_validation_def
      sel_progress_def dom_eval)

text \<open>
  Claim C9.  For the document of the page
  \<open><html><title>Shop</title><button type=submit>Buy</button></html>\<close> the extractor of
  \<open>src/unnamed/part_000\<close> returns the record of the specification, and the prompt built
  from the page and that record contains \<open>primaryCtaGuess: "Buy"\<close>; with the provider
  \<open>ollama\<close> the handler sends that prompt, and the default model, to the local provider.
\<close>

theorem shop_example:
  "runRules shop_document =
     \<lparr> title = js ''Shop'', hasViewport = False, forms = 0, inputs = 0, labels = 0,
       buttons = 1, primaryCtaGuess = js ''Buy'', hasInlineValidationHint = False,
       hasProgress = False \<rparr>
   \<and> sublist (js ''primaryCtaGuess: '' @ [34] @ js ''Buy'' @ [34])
       (buildPrompt shop_html (runRules shop_document))
   \<and> snd (POST (sample_env None whole_upstream) (sample_request (js ''ollama''))) =
       [ModelCall ollama_url json_headers
          (ollama_body default_ollama_model (buildPrompt shop_html (runRules shop_document)))]"
proof -
  have "or_none (js ''Buy'') = js ''Buy''"
    by (simp add: or_none_def js_def)
  then show ?thesis
    using prompt_cta [of "runRules shop_document" shop_html]
    by (simp add: shop_signals POST_sample_ollama sample_bodies)
qed

section \<open>Properties of the stream normalisation\<close>
























lemmas frame_eval = JSON_parse_def js_def is_ws_def is_digit_def props_def is_index_def
  index_value_def trim_def is_space_def





text \<open>
  Claim C6 at a failing input: the local provider sends the frame
  \<open>{"response":"Hello"}\<close>.  Delivered in one read it yields the delta \<open>Hello\<close>; delivered
  in two reads that cut it after \<open>Hel\<close>, the same bytes yield no record at all.
\<close>

theorem ollama_cut_frame_lost:
  "concat (up_chunks cut_upstream) = concat (up_chunks whole_upstream)
   \<and> fst (POST (sample_env None whole_upstream) (sample_request (js ''ollama''))) =
       Responded (stream_response [delta_line (JString (js ''Hello''))])
   \<and> fst (POST (sample_env None cut_upstream) (sample_request (js ''ollama''))) =
       Responded (stream_response [])"
proof -
  have 1: "concat (up_chunks cut_upstream) = concat (up_chunks whole_upstream)"
    by (simp add: cut_upstream_def whole_upstream_def js_def)
  have 2: "line_loop ollama_line (up_chunks whole_upstream) =
      [delta_line (JString (js ''Hello''))]"
    by (simp add: whole_upstream_def split_nl_def nl_def ollama_line_def emit_def frame_eval)
  have 3: "line_loop ollama_line (up_chunks cut_upstream) = []"
    by (simp add: cut_upstream_def split_nl_def nl_def ollama_line_def emit_def frame_eval)
  show ?thesis
    using 1 by (simp add: POST_sample_ollama sample_bodies 2 3)
qed

end
